theory Spec2Isabelle
  imports Main "HOL-Library.Char_ord" "HOL-Library.List_Lexorder"
begin

section \<open>Values of the request bodies\<close>

text \<open>
  The webhook body is the object that body-parser builds from JSON or from a form.
  A field of it is a JavaScript value. A number is kept as the text that
  \<^verbatim>\<open>Number.prototype.toString\<close> gives it, and a nested plain object as its JSON text,
  since the code only ever turns these values into text. A payload is the list of the
  own properties of the body, each key once; where a list has a key twice, the first
  pair is the property.
\<close>

datatype jsval =
    JStr string
  | JNum string
  | JBool bool
  | JNull
  | JArr "jsval list"
  | JObj string

type_synonym payload = "(string \<times> jsval) list"

text \<open>
  \<^verbatim>\<open>`${v}`\<close>: the string conversion of a template literal. An array is joined with
  commas, a null element giving the empty text; a plain object gives
  \<^verbatim>\<open>[object Object]\<close>.
\<close>

fun js_toString :: "jsval \<Rightarrow> string"
  and js_join :: "jsval list \<Rightarrow> string" where
  "js_toString (JStr s) = s"
| "js_toString (JNum s) = s"
| "js_toString (JBool b) = (if b then ''true'' else ''false'')"
| "js_toString JNull = ''null''"
| "js_toString (JArr xs) = js_join xs"
| "js_toString (JObj j) = ''[object Object]''"
| "js_join [] = []"
| "js_join [x] = (if x = JNull then [] else js_toString x)"
| "js_join (x # y # ys) =
     (if x = JNull then [] else js_toString x) @ '','' @ js_join (y # ys)"

text \<open>A missing property is \<^verbatim>\<open>undefined\<close>.\<close>

definition template :: "jsval option \<Rightarrow> string" where
  "template v = (case v of None \<Rightarrow> ''undefined'' | Some x \<Rightarrow> js_toString x)"

text \<open>
  The text that the PostgreSQL driver sends for a query parameter: \<^verbatim>\<open>null\<close> and
  \<^verbatim>\<open>undefined\<close> become SQL NULL, an array becomes an array literal, an object its
  JSON text, anything else its \<^verbatim>\<open>toString()\<close>.
\<close>

definition pg_escape :: "string \<Rightarrow> string" where
  "pg_escape s = concat (map (\<lambda>c. if c = CHR 0x5C then [CHR 0x5C, CHR 0x5C]
                                   else if c = CHR 0x22 then [CHR 0x5C, CHR 0x22]
                                   else [c]) s)"

fun pg_text :: "jsval \<Rightarrow> string"
  and pg_elems :: "jsval list \<Rightarrow> string" where
  "pg_text (JStr s) = s"
| "pg_text (JNum s) = s"
| "pg_text (JBool b) = (if b then ''true'' else ''false'')"
| "pg_text JNull = []"
| "pg_text (JArr xs) = ''{'' @ pg_elems xs @ ''}''"
| "pg_text (JObj j) = j"
| "pg_elems [] = []"
| "pg_elems (x # xs) =
     (case x of
        JNull \<Rightarrow> ''NULL''
      | JArr ys \<Rightarrow> ''{'' @ pg_elems ys @ ''}''
      | _ \<Rightarrow> [CHR 0x22] @ pg_escape (pg_text x) @ [CHR 0x22])
     @ (if xs = [] then [] else '','' @ pg_elems xs)"

definition pg_param :: "jsval option \<Rightarrow> string option" where
  "pg_param v = (case v of None \<Rightarrow> None | Some JNull \<Rightarrow> None | Some x \<Rightarrow> Some (pg_text x))"

section \<open>The tables\<close>

text \<open>
  One record per table of the schema, with the columns that the order and webhook
  routes read or write. Money is an amount of cents: the columns are
  \<^verbatim>\<open>DECIMAL(10, 2)\<close>, and the sums and products that the route computes in floating
  point are rounded to two decimals when they are stored. Time is a number. SQL
  integers and amounts are unbounded here; PostgreSQL answers a value out of range
  with an error.
\<close>

record user =
  u_id :: nat
  u_telegram_id :: int

record product =
  p_id :: nat
  p_name :: string
  p_description :: "string option"
  p_price_usd :: int
  p_image_url :: "string option"
  p_stock :: int
  p_is_active :: bool
  p_updated_at :: nat

record order =
  o_id :: nat
  o_user_id :: nat
  o_total_price :: int
  o_status :: string
  o_updated_at :: nat

record order_item =
  oi_order_id :: nat
  oi_product_id :: nat
  oi_quantity :: int
  oi_price_per_item :: int
  oi_total_price :: int

record invoice =
  i_order_id :: nat
  i_plisio_invoice_id :: string
  i_currency :: string
  i_amount_usd :: int
  i_status :: string
  i_paid_at :: "nat option"

record purchased_product =
  pp_user_id :: nat
  pp_product_id :: nat
  pp_order_id :: nat

text \<open>
  The database, the sequence behind \<^verbatim>\<open>orders.id\<close> (a sequence is not rolled
  back with its transaction), and the messages that the bot has sent.
\<close>

record db =
  users :: "user list"
  products :: "product list"
  orders :: "order list"
  order_items :: "order_item list"
  invoices :: "invoice list"
  purchased_products :: "purchased_product list"
  orders_id_seq :: nat
  tg_sent :: "(int \<times> nat) list"

datatype error = DbError | TypeError | GatewayError | ConfigError

text \<open>
  Every \<^verbatim>\<open>await\<close> on the pool may reject. The places where the two routes query the
  database are named, a loop's queries by the index of the iteration, and a run is
  given the set of places whose query rejects.
\<close>

datatype site =
    FindUser
  | GetProduct nat
  | Connect
  | Begin
  | InsertOrder
  | InsertItem nat
  | Commit
  | InsertInvoice
  | UpdateStock nat
  | GetInvoice
  | UpdateInvoice
  | UpdateOrder
  | GetOrder
  | NotifyGetOrder
  | NotifyFindUser
  | SendMessage

type_synonym faults = "site \<Rightarrow> bool"

definition no_faults :: faults where
  "no_faults = (\<lambda>_. False)"

section \<open>database/db.js\<close>

definition findByTelegramId :: "db \<Rightarrow> int \<Rightarrow> user option" where
  "findByTelegramId d telegramId = find (\<lambda>u. u_telegram_id u = telegramId) (users d)"

definition productQueries_getById :: "db \<Rightarrow> nat \<Rightarrow> product option" where
  "productQueries_getById d pid = find (\<lambda>p. p_id p = pid \<and> p_is_active p) (products d)"

text \<open>
  \<^verbatim>\<open>UPDATE products SET name = $1, description = $2, price_usd = $3, image_url = $4,
  stock = $5 WHERE id = $6 RETURNING *\<close>, with the values that the route passes. The
  stock is \<^verbatim>\<open>parseInt(stock)\<close>: when that is not a number (\<open>None\<close>) the parameter is NaN,
  which the integer column does not take, and the statement fails. The name may be
  missing (\<open>None\<close>): the column is NOT NULL, and the statement fails when it has a
  row to write. The price is an amount; a price that is not a number is left out. The
  trigger of the schema stamps \<^verbatim>\<open>updated_at\<close>.
\<close>

record productData =
  pd_name :: "string option"
  pd_description :: "string option"
  pd_price_usd :: int
  pd_image_url :: "string option"
  pd_stock :: "int option"

definition productQueries_update ::
  "nat \<Rightarrow> db \<Rightarrow> nat \<Rightarrow> productData \<Rightarrow> error + (product option \<times> db)" where
  "productQueries_update now d pid pd =
     (case pd_stock pd of
        None \<Rightarrow> Inl DbError
      | Some st \<Rightarrow>
          if \<not> list_ex (\<lambda>p. p_id p = pid) (products d) then Inr (None, d)
          else
            (case pd_name pd of
               None \<Rightarrow> Inl DbError
             | Some nm \<Rightarrow>
                 (let d' = d\<lparr>products := map (\<lambda>p. if p_id p = pid
                               then p\<lparr>p_name := nm, p_description := pd_description pd,
                                      p_price_usd := pd_price_usd pd,
                                      p_image_url := pd_image_url pd,
                                      p_stock := st, p_updated_at := now\<rparr>
                               else p) (products d)\<rparr>
                  in Inr (find (\<lambda>p. p_id p = pid) (products d'), d'))))"

definition productQueries_delete :: "nat \<Rightarrow> db \<Rightarrow> nat \<Rightarrow> db" where
  "productQueries_delete now d pid =
     d\<lparr>products := map (\<lambda>p. if p_id p = pid then p\<lparr>p_is_active := False, p_updated_at := now\<rparr> else p)
                        (products d)\<rparr>"

text \<open>
  \<^verbatim>\<open>UPDATE products SET stock = stock - $1 WHERE id = $2 AND stock >= $1\<close>; the result is
  \<^verbatim>\<open>rowCount > 0\<close>.
\<close>

definition updateStock :: "nat \<Rightarrow> db \<Rightarrow> nat \<Rightarrow> int \<Rightarrow> bool \<times> db" where
  "updateStock now d pid quantity =
     (0 < length (filter (\<lambda>p. p_id p = pid \<and> p_stock p \<ge> quantity) (products d)),
      d\<lparr>products := map (\<lambda>p. if p_id p = pid \<and> p_stock p \<ge> quantity
                              then p\<lparr>p_stock := p_stock p - quantity, p_updated_at := now\<rparr>
                              else p) (products d)\<rparr>)"

text \<open>The items that the order route hands to \<^verbatim>\<open>orderQueries.create\<close>.\<close>

record orderItem =
  it_product_id :: nat
  it_quantity :: int
  it_price_per_item :: int
  it_total_price :: int

definition item_row :: "nat \<Rightarrow> orderItem \<Rightarrow> order_item" where
  "item_row oid item =
     \<lparr>oi_order_id = oid, oi_product_id = it_product_id item, oi_quantity = it_quantity item,
      oi_price_per_item = it_price_per_item item, oi_total_price = it_total_price item\<rparr>"

fun insert_items :: "faults \<Rightarrow> nat \<Rightarrow> nat \<Rightarrow> orderItem list \<Rightarrow> order_item list \<Rightarrow> error + order_item list" where
  "insert_items fails oid k [] rows = Inr rows"
| "insert_items fails oid k (item # items) rows =
     (if fails (InsertItem k) then Inl DbError
      else insert_items fails oid (Suc k) items (rows @ [item_row oid item]))"

text \<open>
  \<^verbatim>\<open>orderQueries.create\<close>: BEGIN, the order row, one row per item, COMMIT; any
  rejection inside goes to ROLLBACK and is thrown again. The rolled-back state has the
  tables as they were.
\<close>

definition orderQueries_create ::
  "faults \<Rightarrow> nat \<Rightarrow> db \<Rightarrow> nat \<Rightarrow> orderItem list \<Rightarrow> int \<Rightarrow> (error + order) \<times> db" where
  "orderQueries_create fails now d userId items totalPrice =
     (if fails Connect then (Inl DbError, d)
      else if fails Begin then (Inl DbError, d)
      else if fails InsertOrder then (Inl DbError, d)
      else
        let oid = orders_id_seq d;
            ord = \<lparr>o_id = oid, o_user_id = userId, o_total_price = totalPrice,
                   o_status = ''pending'', o_updated_at = now\<rparr>;
            rolled_back = d\<lparr>orders_id_seq := Suc oid\<rparr>
        in case insert_items fails oid 0 items (order_items d) of
             Inl e \<Rightarrow> (Inl e, rolled_back)
           | Inr rows \<Rightarrow>
               if fails Commit then (Inl DbError, rolled_back)
               else (Inr ord, d\<lparr>orders := orders d @ [ord], order_items := rows,
                                 orders_id_seq := Suc oid\<rparr>))"

text \<open>
  \<^verbatim>\<open>orderQueries.getById\<close>: the order joined with its user, the items aggregated over a
  LEFT JOIN. An order without items still gives one aggregated element, all of whose
  fields are null.
\<close>

record joined_item =
  ji_product_id :: "nat option"
  ji_product_name :: "string option"
  ji_quantity :: "int option"
  ji_price_per_item :: "int option"
  ji_total_price :: "int option"

record order_view =
  ov_id :: nat
  ov_user_id :: nat
  ov_total_price :: int
  ov_status :: string
  ov_telegram_id :: int
  ov_items :: "joined_item list"

definition null_item :: joined_item where
  "null_item = \<lparr>ji_product_id = None, ji_product_name = None, ji_quantity = None,
                ji_price_per_item = None, ji_total_price = None\<rparr>"

definition join_item :: "db \<Rightarrow> order_item \<Rightarrow> joined_item" where
  "join_item d oi =
     \<lparr>ji_product_id = Some (oi_product_id oi),
      ji_product_name = map_option p_name (find (\<lambda>p. p_id p = oi_product_id oi) (products d)),
      ji_quantity = Some (oi_quantity oi),
      ji_price_per_item = Some (oi_price_per_item oi),
      ji_total_price = Some (oi_total_price oi)\<rparr>"

definition orderQueries_getById :: "db \<Rightarrow> nat \<Rightarrow> order_view option" where
  "orderQueries_getById d oid =
     (case find (\<lambda>ord. o_id ord = oid) (orders d) of
        None \<Rightarrow> None
      | Some ord \<Rightarrow>
          (case find (\<lambda>u. u_id u = o_user_id ord) (users d) of
             None \<Rightarrow> None
           | Some u \<Rightarrow>
               Some \<lparr>ov_id = o_id ord, ov_user_id = o_user_id ord,
                     ov_total_price = o_total_price ord, ov_status = o_status ord,
                     ov_telegram_id = u_telegram_id u,
                     ov_items = (let rows = filter (\<lambda>oi. oi_order_id oi = oid) (order_items d)
                                 in if rows = [] then [null_item] else map (join_item d) rows)\<rparr>))"

text \<open>\<^verbatim>\<open>UPDATE orders SET status = $1 WHERE id = $2\<close>, and the trigger on \<^verbatim>\<open>orders\<close>.\<close>

definition orderQueries_updateStatus :: "nat \<Rightarrow> db \<Rightarrow> nat \<Rightarrow> string \<Rightarrow> db" where
  "orderQueries_updateStatus now d oid status =
     d\<lparr>orders := map (\<lambda>ord. if o_id ord = oid then ord\<lparr>o_status := status, o_updated_at := now\<rparr> else ord)
                      (orders d)\<rparr>"

text \<open>
  \<^verbatim>\<open>invoiceQueries.create\<close>; \<^verbatim>\<open>plisio_invoice_id\<close> is UNIQUE, so a second row with one
  id is refused.
\<close>

definition invoiceQueries_create :: "db \<Rightarrow> invoice \<Rightarrow> error + db" where
  "invoiceQueries_create d iv =
     (if i_plisio_invoice_id iv \<in> set (map i_plisio_invoice_id (invoices d)) then Inl DbError
      else Inr (d\<lparr>invoices := invoices d @ [iv]\<rparr>))"

text \<open>
  \<^verbatim>\<open>UPDATE invoices SET status = $1, paid_at = $2 WHERE plisio_invoice_id = $3\<close>: the
  only condition is the id.
\<close>

definition invoiceQueries_updateStatus ::
  "db \<Rightarrow> jsval option \<Rightarrow> string \<Rightarrow> nat option \<Rightarrow> db" where
  "invoiceQueries_updateStatus d plisioInvoiceId status paidAt =
     d\<lparr>invoices := map (\<lambda>iv. if pg_param plisioInvoiceId = Some (i_plisio_invoice_id iv)
                                then iv\<lparr>i_status := status, i_paid_at := paidAt\<rparr> else iv)
                        (invoices d)\<rparr>"

definition getByPlisioId :: "db \<Rightarrow> jsval option \<Rightarrow> invoice option" where
  "getByPlisioId d plisioInvoiceId =
     find (\<lambda>iv. pg_param plisioInvoiceId = Some (i_plisio_invoice_id iv)) (invoices d)"

text \<open>
  What \<^verbatim>\<open>require('./database/db')\<close> binds to the name \<^verbatim>\<open>purchasedProductQueries\<close>
  in the server and in the bot. \<^verbatim>\<open>module.exports\<close> of db.js has the keys \<^verbatim>\<open>pool\<close>,
  \<^verbatim>\<open>userQueries\<close>, \<^verbatim>\<open>productQueries\<close>, \<^verbatim>\<open>orderQueries\<close>, \<^verbatim>\<open>invoiceQueries\<close> and
  \<^verbatim>\<open>statsQueries\<close> and no other, and db.js defines no query on \<^verbatim>\<open>purchased_products\<close>:
  the destructured binding is \<^verbatim>\<open>undefined\<close>, there is no object whose \<^verbatim>\<open>create\<close> could
  be called.
\<close>

type_synonym grant_create = "db \<Rightarrow> nat \<Rightarrow> nat option \<Rightarrow> nat \<Rightarrow> error + db"

definition purchasedProductQueries :: "grant_create option" where
  "purchasedProductQueries = None"

text \<open>
  The loop \<^verbatim>\<open>for (const item of order.items) await purchasedProductQueries.create(...)\<close>.
  Reading \<^verbatim>\<open>create\<close> off \<^verbatim>\<open>undefined\<close> throws a TypeError.
\<close>

fun record_purchases ::
  "grant_create option \<Rightarrow> db \<Rightarrow> nat \<Rightarrow> joined_item list \<Rightarrow> nat \<Rightarrow> (error + unit) \<times> db" where
  "record_purchases q d userId [] oid = (Inr (), d)"
| "record_purchases q d userId (item # items) oid =
     (case q of
        None \<Rightarrow> (Inl TypeError, d)
      | Some create \<Rightarrow>
          (case create d userId (ji_product_id item) oid of
             Inl e \<Rightarrow> (Inl e, d)
           | Inr d' \<Rightarrow> record_purchases q d' userId items oid))"

section \<open>services/plisio.js\<close>

text \<open>
  \<^verbatim>\<open>crypto.createHmac('sha1', key).update(text).digest('hex')\<close> is not code of this
  repository: the functions below take it as the parameter \<open>hmac\<close>, from the key and
  the text to the hexadecimal digest.
\<close>

type_synonym mac = "string \<Rightarrow> string \<Rightarrow> string"

fun join_with :: "string \<Rightarrow> string list \<Rightarrow> string" where
  "join_with sep [] = []"
| "join_with sep [x] = x"
| "join_with sep (x # y # ys) = x @ sep @ join_with sep (y # ys)"

text \<open>
  \<^verbatim>\<open>Object.keys(data)\<close>: each own key once. \<^verbatim>\<open>sort()\<close> compares the keys by the codes
  of their characters, as the order on \<open>string\<close> does.
\<close>

definition object_keys :: "payload \<Rightarrow> string list" where
  "object_keys data = remdups (map fst data)"

definition sortedParams :: "payload \<Rightarrow> string" where
  "sortedParams data =
     join_with ''&''
       (map (\<lambda>key. key @ ''='' @ template (map_of data key))
            (sort (filter (\<lambda>key. key \<noteq> ''verify_hash'') (object_keys data))))"

definition verifyWebhookSignature :: "mac \<Rightarrow> string \<Rightarrow> payload \<Rightarrow> jsval option \<Rightarrow> bool" where
  "verifyWebhookSignature hmac secretKey data receivedSignature =
     (if secretKey = [] then True
      else Some (JStr (hmac secretKey (sortedParams data))) = receivedSignature)"

text \<open>
  \<^verbatim>\<open>statusMap[plisioStatus] || 'unknown'\<close>: the property key is the text of the value.
  \<^verbatim>\<open>statusMap\<close> is an object literal, so a key that it does not own is looked up in
  \<^verbatim>\<open>Object.prototype\<close>. What is found there is a function, or for \<^verbatim>\<open>__proto__\<close> the
  prototype itself: it is truthy, it is returned, and it reaches the database as the
  text that the driver makes of it.
\<close>

definition statusMap :: "(string \<times> string) list" where
  "statusMap = [(''new'', ''pending''), (''pending'', ''pending''), (''completed'', ''paid''),
                (''expired'', ''expired''), (''cancelled'', ''cancelled''), (''error'', ''failed'')]"

definition inherited :: "string \<Rightarrow> string option" where
  "inherited key =
     (if key = ''__proto__'' then Some ''{}''
      else if key = ''constructor'' then Some ''function Object() { [native code] }''
      else if key \<in> set [''__defineGetter__'', ''__defineSetter__'', ''hasOwnProperty'',
                           ''__lookupGetter__'', ''__lookupSetter__'', ''isPrototypeOf'',
                           ''propertyIsEnumerable'', ''toString'', ''valueOf'', ''toLocaleString'']
        then Some (''function '' @ key @ ''() { [native code] }'')
      else None)"

definition mapPlisioStatus :: "jsval option \<Rightarrow> string" where
  "mapPlisioStatus plisioStatus =
     (case map_of statusMap (template plisioStatus) of
        Some s \<Rightarrow> s
      | None \<Rightarrow>
          (case inherited (template plisioStatus) of
             Some text \<Rightarrow> text
           | None \<Rightarrow> ''unknown''))"

text \<open>
  \<^verbatim>\<open>processWebhook\<close>, with the three fields of its result that the route reads.
  \<^verbatim>\<open>isPaid\<close> is \<^verbatim>\<open>status === 'completed'\<close>, a strict comparison.
\<close>

record webhookData =
  wd_invoiceId :: "jsval option"
  wd_status :: string
  wd_isPaid :: bool

definition processWebhook :: "payload \<Rightarrow> webhookData" where
  "processWebhook data =
     \<lparr>wd_invoiceId = map_of data ''txn_id'',
      wd_status = mapPlisioStatus (map_of data ''status''),
      wd_isPaid = (map_of data ''status'' = Some (JStr ''completed''))\<rparr>"

text \<open>
  The constructor: \<^verbatim>\<open>if (!this.secretKey) throw new Error('PLISIO_SECRET_KEY is required')\<close>.
\<close>

definition new_PlisioService :: "string option \<Rightarrow> error + string" where
  "new_PlisioService env_key =
     (case env_key of None \<Rightarrow> Inl ConfigError
      | Some k \<Rightarrow> if k = [] then Inl ConfigError else Inr k)"

section \<open>The bot: notifyPaymentReceived\<close>

text \<open>
  The whole body is inside \<^verbatim>\<open>try\<close>, and the \<^verbatim>\<open>catch\<close> only logs: the caller never sees
  a rejection.
\<close>

definition notifyPaymentReceived :: "faults \<Rightarrow> db \<Rightarrow> nat \<Rightarrow> db" where
  "notifyPaymentReceived fails d orderId =
     (if fails NotifyGetOrder then d
      else (case orderQueries_getById d orderId of
        None \<Rightarrow> d
      | Some ord \<Rightarrow>
          if fails NotifyFindUser then d
          else (case findByTelegramId d (ov_telegram_id ord) of
            None \<Rightarrow> d
          | Some u \<Rightarrow>
              (case record_purchases purchasedProductQueries d (u_id u) (ov_items ord) orderId of
                 (Inl e, d1) \<Rightarrow> d1
               | (Inr _, d1) \<Rightarrow>
                   if fails SendMessage then d1
                   else d1\<lparr>tg_sent := tg_sent d1 @ [(ov_telegram_id ord, orderId)]\<rparr>))))"

section \<open>The server: POST /api/webhook/plisio\<close>

datatype response =
    Created order invoice
  | Accepted
  | BadRequest string
  | Unauthorized
  | NotFound string
  | ServerError

fun status_code :: "response \<Rightarrow> nat" where
  "status_code (Created _ _) = 201"
| "status_code Accepted = 200"
| "status_code (BadRequest _) = 400"
| "status_code Unauthorized = 401"
| "status_code (NotFound _) = 404"
| "status_code ServerError = 500"

text \<open>
  \<^verbatim>\<open>req.headers['x-plisio-signature'] || req.body.verify_hash\<close>: a header that is absent
  or empty gives way to the field of the body.
\<close>

definition received_signature :: "string option \<Rightarrow> payload \<Rightarrow> jsval option" where
  "received_signature header body =
     (case header of
        Some h \<Rightarrow> if h = [] then map_of body ''verify_hash'' else Some (JStr h)
      | None \<Rightarrow> map_of body ''verify_hash'')"

text \<open>
  The route. Each statement is sent to the pool on its own: what ran before a
  rejection stays. \<open>now\<close> is the time of the request.
\<close>

definition fulfil :: "faults \<Rightarrow> nat \<Rightarrow> db \<Rightarrow> invoice \<Rightarrow> response \<times> db" where
  "fulfil fails now d1 iv =
     (if fails UpdateOrder then (ServerError, d1)
      else
        let d2 = orderQueries_updateStatus now d1 (i_order_id iv) ''paid'' in
        if fails GetOrder then (ServerError, d2)
        else
          (case (case orderQueries_getById d2 (i_order_id iv) of
                   None \<Rightarrow> (Inr (), d2)
                 | Some ord \<Rightarrow>
                     record_purchases purchasedProductQueries d2 (ov_user_id ord)
                       (ov_items ord) (i_order_id iv)) of
             (Inl e, d3) \<Rightarrow> (ServerError, d3)
           | (Inr _, d3) \<Rightarrow> (Accepted, notifyPaymentReceived fails d3 (i_order_id iv))))"

definition webhook ::
  "faults \<Rightarrow> mac \<Rightarrow> string \<Rightarrow> nat \<Rightarrow> db \<Rightarrow> string option \<Rightarrow> payload \<Rightarrow> response \<times> db" where
  "webhook fails hmac secretKey now d header body =
     (if \<not> verifyWebhookSignature hmac secretKey body (received_signature header body)
      then (Unauthorized, d)
      else
        let webhookData = processWebhook body in
        if fails GetInvoice then (ServerError, d)
        else
          (case getByPlisioId d (wd_invoiceId webhookData) of
             None \<Rightarrow> (NotFound ''Invoice not found'', d)
           | Some iv \<Rightarrow>
               if fails UpdateInvoice then (ServerError, d)
               else
                 let d1 = invoiceQueries_updateStatus d (wd_invoiceId webhookData)
                            (wd_status webhookData)
                            (if wd_isPaid webhookData then Some now else None) in
                 if wd_isPaid webhookData then fulfil fails now d1 iv
                 else (Accepted, d1)))"

section \<open>The server: POST /api/orders\<close>

text \<open>
  The body of the request. \<^verbatim>\<open>telegram_id\<close> and \<^verbatim>\<open>items\<close> may be missing (\<open>None\<close>; for
  \<^verbatim>\<open>items\<close> also when it is not an array). An item names a product and a quantity, at
  the types of the columns they are compared with.
\<close>

record item_req =
  ri_product_id :: nat
  ri_quantity :: int

record order_req =
  rq_telegram_id :: "int option"
  rq_items :: "item_req list option"
  rq_currency :: "string option"

text \<open>
  The payment gateway is outside the repository. \<^verbatim>\<open>plisio.createInvoice\<close> is the
  parameter \<open>gateway\<close>, from the currency, the amount and the order number to the
  invoice of the gateway, \<open>None\<close> when the call throws.
\<close>

record plisioInvoice =
  txn_id :: string
  pi_currency :: string

type_synonym gateway = "string \<Rightarrow> int \<Rightarrow> nat \<Rightarrow> plisioInvoice option"

text \<open>The loop that validates the items and computes the total.\<close>

fun validate_items ::
  "faults \<Rightarrow> db \<Rightarrow> nat \<Rightarrow> item_req list \<Rightarrow> int \<Rightarrow> orderItem list \<Rightarrow> response + (int \<times> orderItem list)" where
  "validate_items fails d k [] totalPrice orderItems = Inr (totalPrice, orderItems)"
| "validate_items fails d k (item # rest) totalPrice orderItems =
     (if fails (GetProduct k) then Inl ServerError
      else (case productQueries_getById d (ri_product_id item) of
        None \<Rightarrow> Inl (BadRequest ''Product not found'')
      | Some product \<Rightarrow>
          if p_stock product < ri_quantity item then Inl (BadRequest ''Insufficient stock'')
          else
            let itemTotal = p_price_usd product * ri_quantity item in
            validate_items fails d (Suc k) rest (totalPrice + itemTotal)
              (orderItems @ [\<lparr>it_product_id = p_id product, it_quantity = ri_quantity item,
                              it_price_per_item = p_price_usd product,
                              it_total_price = itemTotal\<rparr>])))"

text \<open>
  The loop \<^verbatim>\<open>for (const item of orderItems) await productQueries.updateStock(...)\<close>. The
  route does not look at what \<^verbatim>\<open>updateStock\<close> returns. The third component is the log of
  the calls that returned \<^verbatim>\<open>true\<close>, product and quantity: it is not a value of the
  program, it is kept to state what has been reserved.
\<close>

fun update_stocks ::
  "faults \<Rightarrow> nat \<Rightarrow> db \<Rightarrow> nat \<Rightarrow> orderItem list \<Rightarrow> (error + unit) \<times> db \<times> (nat \<times> int) list" where
  "update_stocks fails now d k [] = (Inr (), d, [])"
| "update_stocks fails now d k (item # rest) =
     (if fails (UpdateStock k) then (Inl DbError, d, [])
      else
        let (ok, d') = updateStock now d (it_product_id item) (it_quantity item) in
        case update_stocks fails now d' (Suc k) rest of
          (r, d'', log) \<Rightarrow>
            (r, d'', (if ok then [(it_product_id item, it_quantity item)] else []) @ log))"

definition falsy :: "int option \<Rightarrow> bool" where
  "falsy v = (v = None \<or> v = Some 0)"

text \<open>\<^verbatim>\<open>const { telegram_id, items, currency = 'BTC' } = req.body\<close>.\<close>

definition currency_of :: "order_req \<Rightarrow> string" where
  "currency_of req = (case rq_currency req of None \<Rightarrow> ''BTC'' | Some c \<Rightarrow> c)"

text \<open>The row that the route hands to \<^verbatim>\<open>invoiceQueries.create\<close>.\<close>

definition invoice_row :: "order \<Rightarrow> int \<Rightarrow> plisioInvoice \<Rightarrow> invoice" where
  "invoice_row ord totalPrice plisioInvoice =
     \<lparr>i_order_id = o_id ord, i_plisio_invoice_id = txn_id plisioInvoice,
      i_currency = pi_currency plisioInvoice, i_amount_usd = totalPrice,
      i_status = ''new'', i_paid_at = None\<rparr>"

definition createOrder ::
  "faults \<Rightarrow> gateway \<Rightarrow> nat \<Rightarrow> db \<Rightarrow> order_req \<Rightarrow> response \<times> db \<times> (nat \<times> int) list" where
  "createOrder fails gateway now d req =
     (if falsy (rq_telegram_id req) \<or> rq_items req = None \<or> rq_items req = Some []
      then (BadRequest ''Telegram ID and items are required'', d, [])
      else if fails FindUser then (ServerError, d, [])
      else
        (case findByTelegramId d (the (rq_telegram_id req)) of
           None \<Rightarrow> (NotFound ''User not found'', d, [])
         | Some u \<Rightarrow>
             (case validate_items fails d 0 (the (rq_items req)) 0 [] of
                Inl r \<Rightarrow> (r, d, [])
              | Inr (totalPrice, orderItems) \<Rightarrow>
                  (case orderQueries_create fails now d (u_id u) orderItems totalPrice of
                     (Inl e, d1) \<Rightarrow> (ServerError, d1, [])
                   | (Inr ord, d1) \<Rightarrow>
                       (case gateway (currency_of req) totalPrice (o_id ord) of
                          None \<Rightarrow> (ServerError, d1, [])
                        | Some plisioInvoice \<Rightarrow>
                            if fails InsertInvoice then (ServerError, d1, [])
                            else
                              (case invoiceQueries_create d1
                                      (invoice_row ord totalPrice plisioInvoice) of
                                 Inl e \<Rightarrow> (ServerError, d1, [])
                               | Inr d2 \<Rightarrow>
                                   (case update_stocks fails now d2 0 orderItems of
                                      (Inl e, d3, log) \<Rightarrow> (ServerError, d3, log)
                                    | (Inr _, d3, log) \<Rightarrow>
                                        (Created ord (invoice_row ord totalPrice plisioInvoice),
                                         d3, log))))))))"

text \<open>
  PUT /api/products/:id, for a request that has passed \<^verbatim>\<open>adminAuth\<close>. \<open>fails\<close> tells
  whether the query rejects.
\<close>

definition update_product ::
  "bool \<Rightarrow> nat \<Rightarrow> db \<Rightarrow> nat \<Rightarrow> productData \<Rightarrow> response \<times> db" where
  "update_product fails now d pid pd =
     (if fails then (ServerError, d)
      else (case productQueries_update now d pid pd of
        Inl e \<Rightarrow> (ServerError, d)
      | Inr (None, d') \<Rightarrow> (NotFound ''Product not found'', d')
      | Inr (Some p, d') \<Rightarrow> (Accepted, d')))"

section \<open>States named in the theorems\<close>

text \<open>
  The row of a new order, and the database with the order and its items committed.
\<close>

definition new_order :: "nat \<Rightarrow> db \<Rightarrow> nat \<Rightarrow> int \<Rightarrow> order" where
  "new_order now d userId totalPrice =
     \<lparr>o_id = orders_id_seq d, o_user_id = userId, o_total_price = totalPrice,
      o_status = ''pending'', o_updated_at = now\<rparr>"

definition with_order :: "nat \<Rightarrow> db \<Rightarrow> nat \<Rightarrow> orderItem list \<Rightarrow> int \<Rightarrow> db" where
  "with_order now d userId items totalPrice =
     d\<lparr>orders := orders d @ [new_order now d userId totalPrice],
       order_items := order_items d @ map (item_row (orders_id_seq d)) items,
       orders_id_seq := Suc (orders_id_seq d)\<rparr>"

text \<open>
  The item that the validation loop builds for a requested item: the product as
  \<^verbatim>\<open>productQueries.getById\<close> finds it at that moment, its price, and the price times the
  quantity.
\<close>

definition snapshot :: "db \<Rightarrow> item_req \<Rightarrow> orderItem option" where
  "snapshot d item =
     map_option (\<lambda>product.
         \<lparr>it_product_id = p_id product, it_quantity = ri_quantity item,
          it_price_per_item = p_price_usd product,
          it_total_price = p_price_usd product * ri_quantity item\<rparr>)
       (productQueries_getById d (ri_product_id item))"

text \<open>What the validation loop asks of an item: an active product, and no more than its stock.\<close>

definition acceptable :: "db \<Rightarrow> item_req \<Rightarrow> bool" where
  "acceptable d item =
     (case productQueries_getById d (ri_product_id item) of
        None \<Rightarrow> False
      | Some product \<Rightarrow> ri_quantity item \<le> p_stock product)"

section \<open>Runs of several requests\<close>

text \<open>The same request delivered to the webhook route at the times of a list, in turn.\<close>

fun replay ::
  "faults \<Rightarrow> mac \<Rightarrow> string \<Rightarrow> db \<Rightarrow> string option \<Rightarrow> payload \<Rightarrow> nat list \<Rightarrow> db" where
  "replay fails hmac secretKey d header body [] = d"
| "replay fails hmac secretKey d header body (now # later) =
     replay fails hmac secretKey (snd (webhook fails hmac secretKey now d header body))
       header body later"

text \<open>
  Requests for orders, one after the other, each with the failures, the gateway and
  the time of its own; the result is the last database and the log of all that was
  reserved.
\<close>

record call =
  c_fails :: faults
  c_gateway :: gateway
  c_now :: nat
  c_req :: order_req

fun run_orders :: "db \<Rightarrow> call list \<Rightarrow> db \<times> (nat \<times> int) list" where
  "run_orders d [] = (d, [])"
| "run_orders d (c # cs) =
     (case createOrder (c_fails c) (c_gateway c) (c_now c) d (c_req c) of
        (r, d', log) \<Rightarrow>
          (case run_orders d' cs of (d'', log') \<Rightarrow> (d'', log @ log')))"

text \<open>The quantity of a product in a log of reservations, and its stock in the table.\<close>

definition reserved_total :: "nat \<Rightarrow> (nat \<times> int) list \<Rightarrow> int" where
  "reserved_total pid log = sum_list (map snd (filter (\<lambda>(p, q). p = pid) log))"

definition stock_of :: "db \<Rightarrow> nat \<Rightarrow> int option" where
  "stock_of d pid = map_option p_stock (find (\<lambda>p. p_id p = pid) (products d))"

definition stock_nonneg :: "db \<Rightarrow> bool" where
  "stock_nonneg d = list_all (\<lambda>p. 0 \<le> p_stock p) (products d)"

text \<open>
  The database after both updates of a payment: the invoice \<^verbatim>\<open>paid\<close> at the time of the
  request, and the order \<^verbatim>\<open>paid\<close>.
\<close>

definition paid_state :: "nat \<Rightarrow> db \<Rightarrow> jsval option \<Rightarrow> nat \<Rightarrow> db" where
  "paid_state now d plisioInvoiceId oid =
     orderQueries_updateStatus now
       (invoiceQueries_updateStatus d plisioInvoiceId ''paid'' (Some now)) oid ''paid''"

text \<open>
  The foreign keys of the schema that the webhook route relies on: every invoice has
  its order, and every order its user.
\<close>

definition referential :: "db \<Rightarrow> bool" where
  "referential d =
     (list_all (\<lambda>iv. list_ex (\<lambda>ord. o_id ord = i_order_id iv) (orders d)) (invoices d) \<and>
      list_all (\<lambda>ord. list_ex (\<lambda>u. u_id u = o_user_id ord) (users d)) (orders d))"

text \<open>The five tables of the order and of its payment.\<close>

definition ledger ::
  "db \<Rightarrow> user list \<times> product list \<times> order list \<times> order_item list \<times> invoice list" where
  "ledger d = (users d, products d, orders d, order_items d, invoices d)"

text \<open>The same without the two times that the webhook route stamps.\<close>

definition untimed ::
  "db \<Rightarrow> user list \<times> product list \<times> order list \<times> order_item list \<times> invoice list" where
  "untimed d =
     (users d, products d, map (\<lambda>ord. ord\<lparr>o_updated_at := 0\<rparr>) (orders d), order_items d,
      map (\<lambda>iv. iv\<lparr>i_paid_at := None\<rparr>) (invoices d))"

section \<open>Example data\<close>

text \<open>
  A small store for the closed instances below: one user, two products on sale and one
  withdrawn, one pending order of one item with its invoice. \<open>ex_hmac\<close> stands for the
  digest, and \<open>signed\<close> is a payload as its sender signs it.
\<close>

definition ex_hmac :: mac where
  "ex_hmac key text = key @ ''/'' @ text"

definition signed :: "mac \<Rightarrow> string \<Rightarrow> payload \<Rightarrow> payload" where
  "signed hmac key data = data @ [(''verify_hash'', JStr (hmac key (sortedParams data)))]"

definition ex_db :: db where
  "ex_db =
     \<lparr>users = [\<lparr>u_id = 1, u_telegram_id = 1001\<rparr>],
      products =
        [\<lparr>p_id = 1, p_name = ''Course'', p_description = None, p_price_usd = 9999,
          p_image_url = None, p_stock = 5, p_is_active = True, p_updated_at = 0\<rparr>,
         \<lparr>p_id = 2, p_name = ''E-book'', p_description = None, p_price_usd = 2999,
          p_image_url = None, p_stock = 50, p_is_active = True, p_updated_at = 0\<rparr>,
         \<lparr>p_id = 3, p_name = ''License'', p_description = None, p_price_usd = 19999,
          p_image_url = None, p_stock = 25, p_is_active = False, p_updated_at = 0\<rparr>],
      orders = [\<lparr>o_id = 1, o_user_id = 1, o_total_price = 9999, o_status = ''pending'',
                 o_updated_at = 10\<rparr>],
      order_items = [\<lparr>oi_order_id = 1, oi_product_id = 1, oi_quantity = 1,
                      oi_price_per_item = 9999, oi_total_price = 9999\<rparr>],
      invoices = [\<lparr>i_order_id = 1, i_plisio_invoice_id = ''txn1'', i_currency = ''BTC'',
                   i_amount_usd = 9999, i_status = ''new'', i_paid_at = None\<rparr>],
      purchased_products = [],
      orders_id_seq = 2,
      tg_sent = []\<rparr>"

definition ex_body :: "jsval \<Rightarrow> payload" where
  "ex_body st = [(''txn_id'', JStr ''txn1''), (''status'', st), (''amount'', JStr ''0.5'')]"

definition ex_gateway :: gateway where
  "ex_gateway currency amount order_number =
     Some \<lparr>txn_id = ''txn'' @ replicate order_number CHR ''i'', pi_currency = currency\<rparr>"

definition ex_update :: "int \<Rightarrow> int \<Rightarrow> productData" where
  "ex_update price stock =
     \<lparr>pd_name = Some ''Course'', pd_description = None, pd_price_usd = price,
      pd_image_url = None, pd_stock = Some stock\<rparr>"

definition ex_req :: "item_req list \<Rightarrow> order_req" where
  "ex_req its = \<lparr>rq_telegram_id = Some 1001, rq_items = Some its, rq_currency = None\<rparr>"

text \<open>
  Two requests in turn: five units of the first product, then one more of it.
\<close>

definition ex_calls :: "call list" where
  "ex_calls =
     [\<lparr>c_fails = no_faults, c_gateway = ex_gateway, c_now = 20,
       c_req = ex_req [\<lparr>ri_product_id = 1, ri_quantity = 5\<rparr>]\<rparr>,
      \<lparr>c_fails = no_faults, c_gateway = ex_gateway, c_now = 21,
       c_req = ex_req [\<lparr>ri_product_id = 1, ri_quantity = 1\<rparr>]\<rparr>]"

section \<open>Order creation\<close>

lemma insert_items_result:
  "insert_items fails oid k items rows = Inr rows' \<Longrightarrow> rows' = rows @ map (item_row oid) items"
proof (induction items arbitrary: k rows)
  case Nil
  then show ?case by simp
next
  case (Cons item items)
  from Cons.prems have "insert_items fails oid (Suc k) items (rows @ [item_row oid item]) = Inr rows'"
    by (simp split: if_splits)
  from Cons.IH [OF this] show ?case by simp
qed

lemma insert_items_no_faults:
  "(\<And>j. \<not> fails (InsertItem j)) \<Longrightarrow>
   insert_items fails oid k items rows = Inr (rows @ map (item_row oid) items)"
  by (induction items arbitrary: k rows) auto

lemma orderQueries_create_cases:
  assumes "orderQueries_create fails now d userId items totalPrice = (r, d1)"
  shows "(\<exists>e. r = Inl e \<and> (d1 = d \<or> d1 = d\<lparr>orders_id_seq := Suc (orders_id_seq d)\<rparr>)) \<or>
         (r = Inr (new_order now d userId totalPrice) \<and>
          d1 = with_order now d userId items totalPrice)"
  using assms
  by (auto simp: orderQueries_create_def Let_def new_order_def with_order_def
        split: if_splits sum.splits dest: insert_items_result)

lemma orderQueries_create_no_faults:
  assumes "\<not> fails Connect" "\<not> fails Begin" "\<not> fails InsertOrder" "\<not> fails Commit"
    and "\<And>j. \<not> fails (InsertItem j)"
  shows "orderQueries_create fails now d userId items totalPrice =
           (Inr (new_order now d userId totalPrice), with_order now d userId items totalPrice)"
  using assms(1-4) insert_items_no_faults [of fails, OF assms(5)]
  by (simp add: orderQueries_create_def Let_def new_order_def with_order_def)

lemma updateStock_frame:
  "updateStock now d pid q = (ok, d') \<Longrightarrow>
   users d' = users d \<and> orders d' = orders d \<and> order_items d' = order_items d \<and>
   invoices d' = invoices d \<and> purchased_products d' = purchased_products d \<and>
   orders_id_seq d' = orders_id_seq d \<and> tg_sent d' = tg_sent d \<and>
   map p_id (products d') = map p_id (products d)"
  by (auto simp: updateStock_def)

lemma update_stocks_frame:
  "update_stocks fails now d k its = (r, d', log) \<Longrightarrow>
   users d' = users d \<and> orders d' = orders d \<and> order_items d' = order_items d \<and>
   invoices d' = invoices d \<and> purchased_products d' = purchased_products d \<and>
   orders_id_seq d' = orders_id_seq d \<and> tg_sent d' = tg_sent d \<and>
   map p_id (products d') = map p_id (products d)"
proof (induction its arbitrary: d k r d' log)
  case Nil
  then show ?case by simp
next
  case (Cons item rest)
  show ?case
  proof (cases "fails (UpdateStock k)")
    case True
    with Cons.prems show ?thesis by simp
  next
    case False
    obtain ok d1 where u: "updateStock now d (it_product_id item) (it_quantity item) = (ok, d1)"
      by (cases "updateStock now d (it_product_id item) (it_quantity item)")
    obtain r2 d2 log2 where rest: "update_stocks fails now d1 (Suc k) rest = (r2, d2, log2)"
      by (cases "update_stocks fails now d1 (Suc k) rest")
    from Cons.prems False u rest have "d' = d2"
      by simp
    with Cons.IH [OF rest] updateStock_frame [OF u] show ?thesis
      by simp
  qed
qed


lemma validate_items_rejects:
  "validate_items fails d k its tot acc = Inl resp \<Longrightarrow> status_code resp \<in> {400, 500}"
proof (induction its arbitrary: k tot acc)
  case Nil
  then show ?case by simp
next
  case (Cons item rest)
  show ?case
  proof (cases "productQueries_getById d (ri_product_id item)")
    case None
    with Cons.prems show ?thesis by (auto split: if_splits)
  next
    case (Some product)
    show ?thesis
    proof (cases "fails (GetProduct k) \<or> p_stock product < ri_quantity item")
      case True
      with Cons.prems Some show ?thesis by (auto split: if_splits)
    next
      case False
      with Cons.prems Some obtain tot' acc' where
        "validate_items fails d (Suc k) rest tot' acc' = Inl resp"
        by (auto simp: Let_def)
      from Cons.IH [OF this] show ?thesis .
    qed
  qed
qed

lemma createOrder_cases:
  assumes "createOrder fails gateway now d req = (r, d', log)"
  obtains
    (rejected) "d' = d \<or> d' = d\<lparr>orders_id_seq := Suc (orders_id_seq d)\<rparr> \<and> r = ServerError"
      "log = []" "status_code r \<in> {400, 404, 500}"
  | (no_invoice) u its t ois where
      "findByTelegramId d (the (rq_telegram_id req)) = Some u" "rq_items req = Some its"
      "validate_items fails d 0 its 0 [] = Inr (t, ois)"
      "d' = with_order now d (u_id u) ois t" "log = []" "r = ServerError"
  | (invoiced) u its t ois plisioInvoice x where
      "findByTelegramId d (the (rq_telegram_id req)) = Some u" "rq_items req = Some its"
      "validate_items fails d 0 its 0 [] = Inr (t, ois)"
      "gateway (currency_of req) t (orders_id_seq d) = Some plisioInvoice"
      "update_stocks fails now
         ((with_order now d (u_id u) ois t)
            \<lparr>invoices := invoices d @ [invoice_row (new_order now d (u_id u) t) t plisioInvoice]\<rparr>) 0 ois = (x, d', log)"
      "r = (case x of Inl e \<Rightarrow> ServerError
            | Inr _ \<Rightarrow> Created (new_order now d (u_id u) t) (invoice_row (new_order now d (u_id u) t) t plisioInvoice))"
proof (cases "falsy (rq_telegram_id req) \<or> rq_items req = None \<or> rq_items req = Some [] \<or>
              fails FindUser \<or> findByTelegramId d (the (rq_telegram_id req)) = None")
  case True
  with assms have "d' = d" "log = []" "status_code r \<in> {400, 404, 500}"
    by (auto simp: createOrder_def Let_def split: if_splits)
  then show ?thesis using rejected by simp
next
  case False
  then obtain u its where u: "findByTelegramId d (the (rq_telegram_id req)) = Some u"
    and its: "rq_items req = Some its"
    by auto
  show ?thesis
  proof (cases "validate_items fails d 0 its 0 []")
    case (Inl resp)
    have "status_code resp \<in> {400, 500}"
      using Inl by (rule validate_items_rejects)
    moreover from assms False u its Inl have "r = resp" "d' = d" "log = []"
      by (auto simp: createOrder_def Let_def)
    ultimately show ?thesis using rejected by auto
  next
    case (Inr p)
    obtain t ois where p: "p = (t, ois)"
      by (cases p)
    obtain r1 d1 where c: "orderQueries_create fails now d (u_id u) ois t = (r1, d1)"
      by (cases "orderQueries_create fails now d (u_id u) ois t")
    from assms False u its Inr p c
    have run: "(r, d', log) =
        (case r1 of
           Inl e \<Rightarrow> (ServerError, d1, [])
         | Inr ord \<Rightarrow>
             (case gateway (currency_of req) t (o_id ord) of
                None \<Rightarrow> (ServerError, d1, [])
              | Some plisioInvoice \<Rightarrow>
                  if fails InsertInvoice then (ServerError, d1, [])
                  else
                    (case invoiceQueries_create d1 (invoice_row ord t plisioInvoice) of
                       Inl e \<Rightarrow> (ServerError, d1, [])
                     | Inr d2 \<Rightarrow>
                         (case update_stocks fails now d2 0 ois of
                            (Inl e, d3, log) \<Rightarrow> (ServerError, d3, log)
                          | (Inr _, d3, log) \<Rightarrow>
                              (Created ord (invoice_row ord t plisioInvoice), d3, log)))))"
      by (simp add: createOrder_def)
    from orderQueries_create_cases [OF c] show ?thesis
    proof
      assume "\<exists>e. r1 = Inl e \<and> (d1 = d \<or> d1 = d\<lparr>orders_id_seq := Suc (orders_id_seq d)\<rparr>)"
      with run show ?thesis using rejected by auto
    next
      assume ok: "r1 = Inr (new_order now d (u_id u) t) \<and> d1 = with_order now d (u_id u) ois t"
      have oid: "o_id (new_order now d (u_id u) t) = orders_id_seq d"
        by (simp add: new_order_def)
      have inv1: "\<And>pinv. invoiceQueries_create d1 (invoice_row (new_order now d (u_id u) t) t pinv) =
          (if txn_id pinv \<in> set (map i_plisio_invoice_id (invoices d)) then Inl DbError
           else Inr ((with_order now d (u_id u) ois t)
                  \<lparr>invoices := invoices d @ [invoice_row (new_order now d (u_id u) t) t pinv]\<rparr>))"
        using ok by (simp add: with_order_def invoiceQueries_create_def invoice_row_def)
      show ?thesis
      proof (cases "gateway (currency_of req) t (orders_id_seq d)")
        case None
        with run ok oid have "r = ServerError" "d' = with_order now d (u_id u) ois t" "log = []"
          by simp_all
        with u its Inr p show ?thesis using no_invoice by simp
      next
        case (Some plisioInvoice)
        show ?thesis
        proof (cases "fails InsertInvoice \<or>
                      txn_id plisioInvoice \<in> set (map i_plisio_invoice_id (invoices d))")
          case True
          with run ok oid Some inv1
          have "r = ServerError" "d' = with_order now d (u_id u) ois t" "log = []"
            by (auto split: if_splits)
          with u its Inr p show ?thesis using no_invoice by simp
        next
          case False
          obtain x d3 lg where us: "update_stocks fails now
              ((with_order now d (u_id u) ois t)
                 \<lparr>invoices := invoices d @ [invoice_row (new_order now d (u_id u) t) t plisioInvoice]\<rparr>) 0 ois = (x, d3, lg)"
            by (metis prod_cases3)
          from run ok oid Some inv1 False us
          have "d' = d3" "log = lg"
            "r = (case x of Inl e \<Rightarrow> ServerError
                  | Inr _ \<Rightarrow> Created (new_order now d (u_id u) t) (invoice_row (new_order now d (u_id u) t) t plisioInvoice))"
            by (auto split: sum.splits)
          with u its Inr p Some us show ?thesis using invoiced by simp
        qed
      qed
    qed
  qed
qed

lemma validate_items_snapshot:
  "validate_items fails d k its tot acc = Inr (t, ois) \<Longrightarrow>
   map Some ois = map Some acc @ map (snapshot d) its \<and>
   t = tot + sum_list (map it_total_price (drop (length acc) ois)) \<and>
   list_all (acceptable d) its"
proof (induction its arbitrary: k tot acc)
  case Nil
  then show ?case by simp
next
  case (Cons item rest)
  from Cons.prems obtain product where
    p: "productQueries_getById d (ri_product_id item) = Some product"
    and q: "\<not> p_stock product < ri_quantity item"
    and rest: "validate_items fails d (Suc k) rest (tot + p_price_usd product * ri_quantity item)
       (acc @ [\<lparr>it_product_id = p_id product, it_quantity = ri_quantity item,
                it_price_per_item = p_price_usd product,
                it_total_price = p_price_usd product * ri_quantity item\<rparr>]) = Inr (t, ois)"
    by (auto simp: Let_def split: if_splits option.splits)
  let ?oi = "\<lparr>it_product_id = p_id product, it_quantity = ri_quantity item,
                it_price_per_item = p_price_usd product,
                it_total_price = p_price_usd product * ri_quantity item\<rparr>"
  from Cons.IH [OF rest]
  have m: "map Some ois = map Some (acc @ [?oi]) @ map (snapshot d) rest"
    and t: "t = tot + p_price_usd product * ri_quantity item
                 + sum_list (map it_total_price (drop (length (acc @ [?oi])) ois))"
    and l: "list_all (acceptable d) rest"
    by simp_all
  have s: "snapshot d item = Some ?oi"
    using p by (simp add: snapshot_def)
  from m have len: "length ois = Suc (length acc) + length rest"
    by (metis length_map length_append length_Cons list.size(3) add_Suc_right add_Suc add.right_neutral)
  from m have "map Some (drop (length acc) ois) = Some ?oi # map (snapshot d) rest"
    by (simp add: drop_map [symmetric])
  then obtain tl where d1: "drop (length acc) ois = ?oi # tl"
    by (cases "drop (length acc) ois") auto
  then have "drop (Suc (length acc)) ois = tl"
    by (metis drop_Suc drop_drop list.sel(3) tl_drop plus_1_eq_Suc)
  with t d1 have "t = tot + sum_list (map it_total_price (drop (length acc) ois))"
    by simp
  moreover have "acceptable d item"
    using p q by (simp add: acceptable_def)
  ultimately show ?case
    using m s l by simp
qed

lemma validate_items_accepts:
  "(\<And>j. \<not> fails (GetProduct j)) \<Longrightarrow>
   list_all (acceptable d) its \<Longrightarrow>
   \<exists>t ois. validate_items fails d k its tot acc = Inr (t, ois)"
proof (induction its arbitrary: k tot acc)
  case Nil
  then show ?case by simp
next
  case (Cons item rest)
  then show ?case
    by (auto simp: Let_def acceptable_def split: option.splits)
qed

lemma validate_items_unknown:
  "\<exists>item \<in> set its. productQueries_getById d (ri_product_id item) = None \<Longrightarrow>
   \<exists>r. validate_items fails d k its tot acc = Inl r \<and> status_code r \<in> {400, 500}"
proof (induction its arbitrary: k tot acc)
  case Nil
  then show ?case by simp
next
  case (Cons item rest)
  show ?case
  proof (cases "productQueries_getById d (ri_product_id item)")
    case None
    then show ?thesis by simp
  next
    case (Some product)
    with Cons.prems have "\<exists>x \<in> set rest. productQueries_getById d (ri_product_id x) = None"
      by auto
    from Cons.IH [OF this] show ?thesis
      using Some by (simp add: Let_def)
  qed
qed

text \<open>
  C8. A request for an order one of whose items names a product that is unknown or
  withdrawn (\<^verbatim>\<open>productQueries.getById\<close> finds no active row) persists nothing: whatever
  the other items, the gateway and the failures of the database, the database after
  the request is the database before it, nothing has been reserved, and the request is
  answered with 400, 404 or 500.
\<close>

theorem C8_unknown_product_persists_nothing:
  assumes "rq_items req = Some its"
    and "\<exists>item \<in> set its. productQueries_getById d (ri_product_id item) = None"
  shows "snd (createOrder fails gateway now d req) = (d, []) \<and>
         status_code (fst (createOrder fails gateway now d req)) \<in> {400, 404, 500}"
proof -
  obtain r where r: "validate_items fails d 0 its 0 [] = Inl r" "status_code r \<in> {400, 500}"
    using validate_items_unknown [OF assms(2)] by blast
  show ?thesis
    using assms(1) r by (auto simp: createOrder_def Let_def split: option.splits)
qed

theorem C8_witness:
  "snd (createOrder no_faults ex_gateway 20 ex_db
          (ex_req [\<lparr>ri_product_id = 1, ri_quantity = 1\<rparr>, \<lparr>ri_product_id = 7, ri_quantity = 1\<rparr>]))
     = (ex_db, []) \<and>
   status_code (fst (createOrder no_faults ex_gateway 20 ex_db
          (ex_req [\<lparr>ri_product_id = 1, ri_quantity = 1\<rparr>, \<lparr>ri_product_id = 7, ri_quantity = 1\<rparr>])))
     \<in> {400, 404, 500}"
proof -
  have h1: "rq_items (ex_req [\<lparr>ri_product_id = 1, ri_quantity = 1\<rparr>, \<lparr>ri_product_id = 7, ri_quantity = 1\<rparr>])
              = Some [\<lparr>ri_product_id = 1, ri_quantity = 1\<rparr>, \<lparr>ri_product_id = 7, ri_quantity = 1\<rparr>]"
    by (simp add: ex_req_def)
  have h2: "\<exists>item \<in> set [\<lparr>ri_product_id = 1, ri_quantity = 1\<rparr>, \<lparr>ri_product_id = 7, ri_quantity = 1\<rparr>].
              productQueries_getById ex_db (ri_product_id item) = None"
    by (simp add: productQueries_getById_def ex_db_def)
  show ?thesis
    by (rule C8_unknown_product_persists_nothing [OF h1 h2])
qed

section \<open>The webhook route\<close>

lemma record_purchases_undefined:
  "record_purchases purchasedProductQueries d u its oid =
     (if its = [] then Inr () else Inl TypeError, d)"
  by (cases its) (simp_all add: purchasedProductQueries_def)

lemma getById_items_nonempty:
  "orderQueries_getById d oid = Some ord \<Longrightarrow> ov_items ord \<noteq> []"
  by (auto simp: orderQueries_getById_def Let_def split: option.splits if_splits)

lemma notifyPaymentReceived_sends_nothing:
  "notifyPaymentReceived fails d oid = d"
  by (auto simp: notifyPaymentReceived_def record_purchases_undefined
           dest: getById_items_nonempty split: option.splits)

lemma fulfil_eq:
  "fulfil fails now d1 iv =
     (if fails UpdateOrder then (ServerError, d1)
      else if fails GetOrder then (ServerError, orderQueries_updateStatus now d1 (i_order_id iv) ''paid'')
      else if orderQueries_getById (orderQueries_updateStatus now d1 (i_order_id iv) ''paid'') (i_order_id iv) = None
        then (Accepted, orderQueries_updateStatus now d1 (i_order_id iv) ''paid'')
        else (ServerError, orderQueries_updateStatus now d1 (i_order_id iv) ''paid''))"
  by (auto simp: fulfil_def Let_def record_purchases_undefined notifyPaymentReceived_sends_nothing
           dest: getById_items_nonempty split: option.splits)

lemma mapPlisioStatus_completed:
  "mapPlisioStatus (Some (JStr ''completed'')) = ''paid''"
  by (simp add: mapPlisioStatus_def statusMap_def template_def)

lemma webhook_eq:
  "webhook fails hmac secretKey now d header body =
     (if \<not> verifyWebhookSignature hmac secretKey body (received_signature header body)
      then (Unauthorized, d)
      else if fails GetInvoice then (ServerError, d)
      else (case getByPlisioId d (map_of body ''txn_id'') of
        None \<Rightarrow> (NotFound ''Invoice not found'', d)
      | Some iv \<Rightarrow>
          if fails UpdateInvoice then (ServerError, d)
          else if map_of body ''status'' = Some (JStr ''completed'')
            then fulfil fails now
                   (invoiceQueries_updateStatus d (map_of body ''txn_id'') ''paid'' (Some now)) iv
            else (Accepted, invoiceQueries_updateStatus d (map_of body ''txn_id'')
                              (mapPlisioStatus (map_of body ''status'')) None)))"
  by (auto simp: webhook_def Let_def processWebhook_def mapPlisioStatus_completed
           split: option.splits)


lemma find_updated_order:
  "find (\<lambda>ord. o_id ord = k)
        (map (\<lambda>ord. if o_id ord = oid then ord\<lparr>o_status := st, o_updated_at := now\<rparr> else ord) xs)
   = map_option (\<lambda>ord. if o_id ord = oid then ord\<lparr>o_status := st, o_updated_at := now\<rparr> else ord)
       (find (\<lambda>ord. o_id ord = k) xs)"
  by (induction xs) auto

lemma join_item_products:
  "products d' = products d \<Longrightarrow> join_item d' = join_item d"
  by (rule ext) (simp add: join_item_def)

lemma getById_frame:
  "users d' = users d \<Longrightarrow> orders d' = orders d \<Longrightarrow> order_items d' = order_items d \<Longrightarrow>
   products d' = products d \<Longrightarrow> orderQueries_getById d' k = orderQueries_getById d k"
  using join_item_products [of d' d]
  by (simp add: orderQueries_getById_def Let_def cong: option.case_cong)

lemma getById_invoice_update:
  "orderQueries_getById (invoiceQueries_updateStatus d t s p) k = orderQueries_getById d k"
  by (rule getById_frame) (simp_all add: invoiceQueries_updateStatus_def)

lemma getById_order_update:
  "orderQueries_getById (orderQueries_updateStatus now d oid st) k =
     map_option (\<lambda>v. if k = oid then v\<lparr>ov_status := st\<rparr> else v) (orderQueries_getById d k)"
proof (cases "find (\<lambda>ord. o_id ord = k) (orders d)")
  case None
  then show ?thesis
    by (simp add: orderQueries_getById_def orderQueries_updateStatus_def find_updated_order)
next
  case (Some ord)
  then have k: "o_id ord = k"
    by (auto simp: find_Some_iff)
  show ?thesis
    using Some k
    by (cases "find (\<lambda>u. u_id u = o_user_id ord) (users d)")
       (simp_all add: orderQueries_getById_def orderQueries_updateStatus_def find_updated_order
          join_item_products [of "d\<lparr>orders := xs\<rparr>" d for xs] Let_def)
qed

lemma getById_after_updates:
  "orderQueries_getById (orderQueries_updateStatus now
       (invoiceQueries_updateStatus d t s p) oid st) oid' = None
   \<longleftrightarrow> orderQueries_getById d oid' = None"
  by (simp add: getById_order_update getById_invoice_update)

lemma webhook_grants_nothing:
  "purchased_products (snd (webhook fails hmac secretKey now d header body)) = purchased_products d
   \<and> tg_sent (snd (webhook fails hmac secretKey now d header body)) = tg_sent d"
  by (simp add: webhook_eq fulfil_eq orderQueries_updateStatus_def invoiceQueries_updateStatus_def
        split: option.splits)

lemma referential_order_found:
  assumes "referential d" "getByPlisioId d k = Some iv"
  shows "orderQueries_getById d (i_order_id iv) \<noteq> None"
proof -
  from assms(2) have "iv \<in> set (invoices d)"
    by (auto simp: getByPlisioId_def find_Some_iff)
  with assms(1) obtain ord :: order where "ord \<in> set (orders d)" "o_id ord = i_order_id iv"
    by (auto simp: referential_def list_all_iff list_ex_iff)
  then obtain ord' :: order where f: "find (\<lambda>ord. o_id ord = i_order_id iv) (orders d) = Some ord'"
    by (cases "find (\<lambda>ord. o_id ord = i_order_id iv) (orders d)") (auto simp: find_None_iff)
  then have "ord' \<in> set (orders d)"
    by (auto simp: find_Some_iff)
  with assms(1) obtain u :: user where "u \<in> set (users d)" "u_id u = o_user_id ord'"
    by (auto simp: referential_def list_all_iff list_ex_iff)
  then obtain u' :: user where "find (\<lambda>u. u_id u = o_user_id ord') (users d) = Some u'"
    by (cases "find (\<lambda>u. u_id u = o_user_id ord') (users d)") (auto simp: find_None_iff)
  with f show ?thesis
    by (simp add: orderQueries_getById_def)
qed

lemma referential_iff:
  "referential d \<longleftrightarrow>
     set (map i_order_id (invoices d)) \<subseteq> set (map o_id (orders d)) \<and>
     set (map o_user_id (orders d)) \<subseteq> set (map u_id (users d))"
  unfolding referential_def list_all_iff list_ex_iff set_map
  by (rule iffI) (force simp: image_iff subset_iff)+

lemma webhook_ids:
  "map i_order_id (invoices (snd (webhook fails hmac secretKey now d header body)))
     = map i_order_id (invoices d) \<and>
   map o_id (orders (snd (webhook fails hmac secretKey now d header body))) = map o_id (orders d) \<and>
   map o_user_id (orders (snd (webhook fails hmac secretKey now d header body)))
     = map o_user_id (orders d) \<and>
   users (snd (webhook fails hmac secretKey now d header body)) = users d"
  by (simp add: webhook_eq fulfil_eq orderQueries_updateStatus_def invoiceQueries_updateStatus_def
        comp_def split: option.splits)

lemma referential_webhook:
  "referential d \<Longrightarrow> referential (snd (webhook fails hmac secretKey now d header body))"
  by (simp add: referential_iff webhook_ids)

text \<open>
  C3. The webhook route never inserts a row into \<^verbatim>\<open>purchased_products\<close> and never sends
  a message, whatever the request. When the signature verifies, the status of the
  payload is \<^verbatim>\<open>completed\<close>, the invoice is known, the foreign keys hold and no query
  rejects, then the order fetched for fulfilment has an item, the call
  \<^verbatim>\<open>purchasedProductQueries.create\<close> on it throws a TypeError, and the route answers 500
  with the invoice already set to \<^verbatim>\<open>paid\<close> and the order already set to \<^verbatim>\<open>paid\<close>.
\<close>

theorem C3_fulfilment_throws:
  "purchased_products (snd (webhook fails hmac secretKey now d header body)) = purchased_products d \<and>
   tg_sent (snd (webhook fails hmac secretKey now d header body)) = tg_sent d \<and>
   (verifyWebhookSignature hmac secretKey body (received_signature header body) \<and>
    map_of body ''status'' = Some (JStr ''completed'') \<and>
    getByPlisioId d (map_of body ''txn_id'') = Some iv \<and> referential d \<and>
    \<not> fails GetInvoice \<and> \<not> fails UpdateInvoice \<and> \<not> fails UpdateOrder \<and> \<not> fails GetOrder
    \<longrightarrow>
      (\<exists>ord. orderQueries_getById
                (orderQueries_updateStatus now
                   (invoiceQueries_updateStatus d (map_of body ''txn_id'') ''paid'' (Some now))
                   (i_order_id iv) ''paid'') (i_order_id iv) = Some ord \<and>
             fst (record_purchases purchasedProductQueries
                    (orderQueries_updateStatus now
                       (invoiceQueries_updateStatus d (map_of body ''txn_id'') ''paid'' (Some now))
                       (i_order_id iv) ''paid'')
                    (ov_user_id ord) (ov_items ord) (i_order_id iv)) = Inl TypeError) \<and>
      webhook fails hmac secretKey now d header body =
        (ServerError,
         orderQueries_updateStatus now
           (invoiceQueries_updateStatus d (map_of body ''txn_id'') ''paid'' (Some now))
           (i_order_id iv) ''paid''))"
proof (intro conjI impI)
  show "purchased_products (snd (webhook fails hmac secretKey now d header body)) = purchased_products d"
    by (simp add: webhook_grants_nothing)
  show "tg_sent (snd (webhook fails hmac secretKey now d header body)) = tg_sent d"
    by (simp add: webhook_grants_nothing)
next
  let ?d2 = "orderQueries_updateStatus now
           (invoiceQueries_updateStatus d (map_of body ''txn_id'') ''paid'' (Some now))
           (i_order_id iv) ''paid''"
  assume h: "verifyWebhookSignature hmac secretKey body (received_signature header body) \<and>
    map_of body ''status'' = Some (JStr ''completed'') \<and>
    getByPlisioId d (map_of body ''txn_id'') = Some iv \<and> referential d \<and>
    \<not> fails GetInvoice \<and> \<not> fails UpdateInvoice \<and> \<not> fails UpdateOrder \<and> \<not> fails GetOrder"
  then have "orderQueries_getById d (i_order_id iv) \<noteq> None"
    using referential_order_found by blast
  then have found: "orderQueries_getById ?d2 (i_order_id iv) \<noteq> None"
    by (simp add: getById_after_updates)
  then obtain ord where ord: "orderQueries_getById ?d2 (i_order_id iv) = Some ord"
    by blast
  have "fst (record_purchases purchasedProductQueries ?d2 (ov_user_id ord) (ov_items ord)
               (i_order_id iv)) = Inl TypeError"
    using getById_items_nonempty [OF ord] by (simp add: record_purchases_undefined)
  with ord show "\<exists>ord. orderQueries_getById ?d2 (i_order_id iv) = Some ord \<and>
             fst (record_purchases purchasedProductQueries ?d2
                    (ov_user_id ord) (ov_items ord) (i_order_id iv)) = Inl TypeError"
    by blast
  show "webhook fails hmac secretKey now d header body = (ServerError, ?d2)"
    using h found by (simp add: webhook_eq fulfil_eq)
qed

theorem C3_witness:
  "fst (webhook no_faults ex_hmac ''k'' 20 ex_db None (signed ex_hmac ''k'' (ex_body (JStr ''completed''))))
     = ServerError \<and>
   map i_status (invoices (snd (webhook no_faults ex_hmac ''k'' 20 ex_db None
       (signed ex_hmac ''k'' (ex_body (JStr ''completed'')))))) = [''paid''] \<and>
   map o_status (orders (snd (webhook no_faults ex_hmac ''k'' 20 ex_db None
       (signed ex_hmac ''k'' (ex_body (JStr ''completed'')))))) = [''paid''] \<and>
   purchased_products (snd (webhook no_faults ex_hmac ''k'' 20 ex_db None
       (signed ex_hmac ''k'' (ex_body (JStr ''completed''))))) = []"
proof -
  let ?body = "signed ex_hmac ''k'' (ex_body (JStr ''completed''))"
  let ?iv = "\<lparr>i_order_id = 1, i_plisio_invoice_id = ''txn1'', i_currency = ''BTC'',
                   i_amount_usd = 9999, i_status = ''new'', i_paid_at = None\<rparr>"
  have h: "verifyWebhookSignature ex_hmac ''k'' ?body (received_signature None ?body) \<and>
    map_of ?body ''status'' = Some (JStr ''completed'') \<and>
    getByPlisioId ex_db (map_of ?body ''txn_id'') = Some ?iv \<and> referential ex_db \<and>
    \<not> no_faults GetInvoice \<and> \<not> no_faults UpdateInvoice \<and> \<not> no_faults UpdateOrder \<and> \<not> no_faults GetOrder"
    by code_simp
  have eq: "webhook no_faults ex_hmac ''k'' 20 ex_db None ?body =
        (ServerError,
         orderQueries_updateStatus 20
           (invoiceQueries_updateStatus ex_db (map_of ?body ''txn_id'') ''paid'' (Some 20))
           (i_order_id ?iv) ''paid'')"
    using C3_fulfilment_throws [of no_faults ex_hmac "''k''" 20 ex_db None ?body ?iv] h by blast
  show ?thesis
    unfolding eq by code_simp
qed

section \<open>Prices and quantities of an order\<close>

lemma update_product_frame:
  "orders (snd (update_product f now d pid pd)) = orders d \<and>
   order_items (snd (update_product f now d pid pd)) = order_items d \<and>
   users (snd (update_product f now d pid pd)) = users d"
  by (simp add: update_product_def productQueries_update_def Let_def
        split: option.splits sum.splits prod.splits)

lemma view_prices_frame:
  assumes "orders d' = orders d" "order_items d' = order_items d" "users d' = users d"
  shows "map_option ov_total_price (orderQueries_getById d' oid)
           = map_option ov_total_price (orderQueries_getById d oid) \<and>
         map_option (\<lambda>v. map ji_price_per_item (ov_items v)) (orderQueries_getById d' oid)
           = map_option (\<lambda>v. map ji_price_per_item (ov_items v)) (orderQueries_getById d oid) \<and>
         map_option (\<lambda>v. map ji_total_price (ov_items v)) (orderQueries_getById d' oid)
           = map_option (\<lambda>v. map ji_total_price (ov_items v)) (orderQueries_getById d oid)"
  using assms
  by (simp add: orderQueries_getById_def Let_def join_item_def null_item_def comp_def
        split: option.splits)

lemma createOrder_committed:
  assumes "createOrder fails gateway now d req = (r, d', log)" and "orders d' \<noteq> orders d"
  shows "\<exists>u its t ois. findByTelegramId d (the (rq_telegram_id req)) = Some u \<and>
           rq_items req = Some its \<and>
           validate_items fails d 0 its 0 [] = Inr (t, ois) \<and>
           orders d' = orders d @ [new_order now d (u_id u) t] \<and>
           order_items d' = order_items d @ map (item_row (orders_id_seq d)) ois"
  using assms(1)
proof (cases rule: createOrder_cases)
  case rejected
  with assms(2) show ?thesis by auto
next
  case (no_invoice u its t ois)
  then show ?thesis
    by (auto simp: with_order_def)
next
  case (invoiced u its t ois plisioInvoice x)
  from update_stocks_frame [OF invoiced(5)]
  have "orders d' = orders d @ [new_order now d (u_id u) t]"
    "order_items d' = order_items d @ map (item_row (orders_id_seq d)) ois"
    by (simp_all add: with_order_def)
  with invoiced show ?thesis
    by blast
qed

lemma getById_id:
  "productQueries_getById d pid = Some product \<Longrightarrow> p_id product = pid"
  by (auto simp: productQueries_getById_def find_Some_iff)

lemma snapshot_rows:
  "map Some ois = map (snapshot d) its \<Longrightarrow>
   \<exists>ps. map (\<lambda>item. productQueries_getById d (ri_product_id item)) its = map Some ps \<and>
     map (item_row oid) ois
       = map (\<lambda>(product, item).
            \<lparr>oi_order_id = oid, oi_product_id = ri_product_id item,
             oi_quantity = ri_quantity item, oi_price_per_item = p_price_usd product,
             oi_total_price = p_price_usd product * ri_quantity item\<rparr>) (zip ps its) \<and>
     sum_list (map it_total_price ois)
       = sum_list (map (\<lambda>(product, item). p_price_usd product * ri_quantity item) (zip ps its))"
proof (induction its arbitrary: ois)
  case Nil
  then show ?case by simp
next
  case (Cons item rest)
  from Cons.prems obtain oi tl where ois: "ois = oi # tl"
    by (cases ois) auto
  with Cons.prems have s: "snapshot d item = Some oi" and m: "map Some tl = map (snapshot d) rest"
    by simp_all
  from s obtain product :: product where
    p: "productQueries_getById d (ri_product_id item) = Some product"
    and oi: "oi = \<lparr>it_product_id = p_id product, it_quantity = ri_quantity item,
                   it_price_per_item = p_price_usd product,
                   it_total_price = p_price_usd product * ri_quantity item\<rparr>"
    by (auto simp: snapshot_def)
  from getById_id [OF p] have pid: "p_id product = ri_product_id item" .
  from Cons.IH [OF m] obtain ps where
    ih: "map (\<lambda>item. productQueries_getById d (ri_product_id item)) rest = map Some ps"
      "map (item_row oid) tl
       = map (\<lambda>(product, item).
            \<lparr>oi_order_id = oid, oi_product_id = ri_product_id item,
             oi_quantity = ri_quantity item, oi_price_per_item = p_price_usd product,
             oi_total_price = p_price_usd product * ri_quantity item\<rparr>) (zip ps rest)"
      "sum_list (map it_total_price tl)
       = sum_list (map (\<lambda>(product, item). p_price_usd product * ri_quantity item) (zip ps rest))"
    by blast
  have "map (\<lambda>item. productQueries_getById d (ri_product_id item)) (item # rest)
          = map Some (product # ps)"
    using p ih(1) by simp
  moreover have "map (item_row oid) ois
       = map (\<lambda>(product, item).
            \<lparr>oi_order_id = oid, oi_product_id = ri_product_id item,
             oi_quantity = ri_quantity item, oi_price_per_item = p_price_usd product,
             oi_total_price = p_price_usd product * ri_quantity item\<rparr>) (zip (product # ps) (item # rest))"
    using ois oi pid ih(2) by (simp add: item_row_def)
  moreover have "sum_list (map it_total_price ois)
       = sum_list (map (\<lambda>(product, item). p_price_usd product * ri_quantity item)
           (zip (product # ps) (item # rest)))"
    using ois oi ih(3) by simp
  ultimately show ?case
    by blast
qed

text \<open>
  C9. An update of a product by the administrator, whatever it writes, leaves every
  row of \<^verbatim>\<open>orders\<close> and of \<^verbatim>\<open>order_items\<close> as it was, and so the total, the prices per
  item and the line totals that \<^verbatim>\<open>orderQueries.getById\<close> reports for any order. And a
  request that commits an order has found a product \<open>ps ! i\<close> for each requested item
  \<open>its ! i\<close>, and has added exactly one row per item, in the order of the request,
  with the number of the new order, the requested product and quantity, as price per
  item the \<^verbatim>\<open>price_usd\<close> of that product as it was found, and as line total that price
  times the quantity; the row of the order has the sum of these line totals as its
  \<^verbatim>\<open>total_price\<close>. A later update of a product leaves these rows as they are.
\<close>

theorem C9_price_snapshot:
  "orders (snd (update_product f t' e pid pd)) = orders e \<and>
   order_items (snd (update_product f t' e pid pd)) = order_items e \<and>
   map_option ov_total_price (orderQueries_getById (snd (update_product f t' e pid pd)) oid)
     = map_option ov_total_price (orderQueries_getById e oid) \<and>
   map_option (\<lambda>v. map ji_price_per_item (ov_items v))
       (orderQueries_getById (snd (update_product f t' e pid pd)) oid)
     = map_option (\<lambda>v. map ji_price_per_item (ov_items v)) (orderQueries_getById e oid) \<and>
   map_option (\<lambda>v. map ji_total_price (ov_items v))
       (orderQueries_getById (snd (update_product f t' e pid pd)) oid)
     = map_option (\<lambda>v. map ji_total_price (ov_items v)) (orderQueries_getById e oid) \<and>
   (createOrder fails gateway now d req = (r, d1, log) \<and> orders d1 \<noteq> orders d \<longrightarrow>
      (\<exists>(u::user) its ps.
         findByTelegramId d (the (rq_telegram_id req)) = Some u \<and>
         rq_items req = Some its \<and>
         map (\<lambda>item. productQueries_getById d (ri_product_id item)) its = map Some ps \<and>
         orders d1 = orders d @
           [\<lparr>o_id = orders_id_seq d, o_user_id = u_id u,
             o_total_price =
               sum_list (map (\<lambda>(product, item). p_price_usd product * ri_quantity item) (zip ps its)),
             o_status = ''pending'', o_updated_at = now\<rparr>] \<and>
         order_items d1 = order_items d @
           map (\<lambda>(product, item).
                 \<lparr>oi_order_id = orders_id_seq d, oi_product_id = ri_product_id item,
                  oi_quantity = ri_quantity item, oi_price_per_item = p_price_usd product,
                  oi_total_price = p_price_usd product * ri_quantity item\<rparr>) (zip ps its) \<and>
         orders (snd (update_product f t' d1 pid pd)) = orders d1 \<and>
         order_items (snd (update_product f t' d1 pid pd)) = order_items d1))"
proof -
  have frame: "orders (snd (update_product f t' e pid pd)) = orders e"
    "order_items (snd (update_product f t' e pid pd)) = order_items e"
    "users (snd (update_product f t' e pid pd)) = users e"
    by (simp_all add: update_product_frame)
  have created: "\<exists>(u::user) its ps.
         findByTelegramId d (the (rq_telegram_id req)) = Some u \<and>
         rq_items req = Some its \<and>
         map (\<lambda>item. productQueries_getById d (ri_product_id item)) its = map Some ps \<and>
         orders d1 = orders d @
           [\<lparr>o_id = orders_id_seq d, o_user_id = u_id u,
             o_total_price =
               sum_list (map (\<lambda>(product, item). p_price_usd product * ri_quantity item) (zip ps its)),
             o_status = ''pending'', o_updated_at = now\<rparr>] \<and>
         order_items d1 = order_items d @
           map (\<lambda>(product, item).
                 \<lparr>oi_order_id = orders_id_seq d, oi_product_id = ri_product_id item,
                  oi_quantity = ri_quantity item, oi_price_per_item = p_price_usd product,
                  oi_total_price = p_price_usd product * ri_quantity item\<rparr>) (zip ps its) \<and>
         orders (snd (update_product f t' d1 pid pd)) = orders d1 \<and>
         order_items (snd (update_product f t' d1 pid pd)) = order_items d1"
    if h: "createOrder fails gateway now d req = (r, d1, log)" "orders d1 \<noteq> orders d"
  proof -
    from createOrder_committed [OF h] obtain u :: user and its t ois where
      c: "findByTelegramId d (the (rq_telegram_id req)) = Some u"
        "rq_items req = Some its" "validate_items fails d 0 its 0 [] = Inr (t, ois)"
        "orders d1 = orders d @ [new_order now d (u_id u) t]"
        "order_items d1 = order_items d @ map (item_row (orders_id_seq d)) ois"
      by blast
    from validate_items_snapshot [OF c(3)]
    have s: "map Some ois = map (snapshot d) its" and t: "t = sum_list (map it_total_price ois)"
      by simp_all
    from snapshot_rows [OF s, of "orders_id_seq d"] obtain ps where
      ps: "map (\<lambda>item. productQueries_getById d (ri_product_id item)) its = map Some ps"
        "map (item_row (orders_id_seq d)) ois
         = map (\<lambda>(product, item).
              \<lparr>oi_order_id = orders_id_seq d, oi_product_id = ri_product_id item,
               oi_quantity = ri_quantity item, oi_price_per_item = p_price_usd product,
               oi_total_price = p_price_usd product * ri_quantity item\<rparr>) (zip ps its)"
        "sum_list (map it_total_price ois)
         = sum_list (map (\<lambda>(product, item). p_price_usd product * ri_quantity item) (zip ps its))"
      by blast
    have o: "orders d1 = orders d @
           [\<lparr>o_id = orders_id_seq d, o_user_id = u_id u,
             o_total_price =
               sum_list (map (\<lambda>(product, item). p_price_usd product * ri_quantity item) (zip ps its)),
             o_status = ''pending'', o_updated_at = now\<rparr>]"
      using c(4) t ps(3) by (simp add: new_order_def)
    have i: "order_items d1 = order_items d @
           map (\<lambda>(product, item).
                 \<lparr>oi_order_id = orders_id_seq d, oi_product_id = ri_product_id item,
                  oi_quantity = ri_quantity item, oi_price_per_item = p_price_usd product,
                  oi_total_price = p_price_usd product * ri_quantity item\<rparr>) (zip ps its)"
      using c(5) ps(2) by simp
    have f: "orders (snd (update_product f t' d1 pid pd)) = orders d1"
      "order_items (snd (update_product f t' d1 pid pd)) = order_items d1"
      by (simp_all add: update_product_frame)
    from c(1,2) ps(1) o i f show ?thesis
      by blast
  qed
  show ?thesis
    using frame view_prices_frame [OF frame] created by blast
qed

theorem C9_witness:
  "orders (fst (snd (createOrder no_faults ex_gateway 20 ex_db
             (ex_req [\<lparr>ri_product_id = 1, ri_quantity = 2\<rparr>])))) \<noteq> orders ex_db \<and>
   order_items (snd (update_product False 30
       (fst (snd (createOrder no_faults ex_gateway 20 ex_db
             (ex_req [\<lparr>ri_product_id = 1, ri_quantity = 2\<rparr>])))) 1 (ex_update 12999 5)))
     = order_items ex_db @
         [\<lparr>oi_order_id = 2, oi_product_id = 1, oi_quantity = 2, oi_price_per_item = 9999,
           oi_total_price = 19998\<rparr>] \<and>
   orders (snd (update_product False 30
       (fst (snd (createOrder no_faults ex_gateway 20 ex_db
             (ex_req [\<lparr>ri_product_id = 1, ri_quantity = 2\<rparr>])))) 1 (ex_update 12999 5)))
     = orders ex_db @
         [\<lparr>o_id = 2, o_user_id = 1, o_total_price = 19998, o_status = ''pending'',
           o_updated_at = 20\<rparr>] \<and>
   map_option p_price_usd (productQueries_getById (snd (update_product False 30
       (fst (snd (createOrder no_faults ex_gateway 20 ex_db
             (ex_req [\<lparr>ri_product_id = 1, ri_quantity = 2\<rparr>])))) 1 (ex_update 12999 5))) 1)
     = Some 12999 \<and>
   map_option ov_total_price (orderQueries_getById (snd (update_product False 30
       (fst (snd (createOrder no_faults ex_gateway 20 ex_db
             (ex_req [\<lparr>ri_product_id = 1, ri_quantity = 2\<rparr>])))) 1 (ex_update 12999 5))) 2)
     = Some 19998 \<and>
   map_option (\<lambda>v. map ji_price_per_item (ov_items v)) (orderQueries_getById (snd (update_product False 30
       (fst (snd (createOrder no_faults ex_gateway 20 ex_db
             (ex_req [\<lparr>ri_product_id = 1, ri_quantity = 2\<rparr>])))) 1 (ex_update 12999 5))) 2)
     = Some [Some 9999] \<and>
   map_option (\<lambda>v. map ji_total_price (ov_items v)) (orderQueries_getById (snd (update_product False 30
       (fst (snd (createOrder no_faults ex_gateway 20 ex_db
             (ex_req [\<lparr>ri_product_id = 1, ri_quantity = 2\<rparr>])))) 1 (ex_update 12999 5))) 2)
     = Some [Some 19998]"
proof -
  let ?req = "ex_req [\<lparr>ri_product_id = 1, ri_quantity = 2\<rparr>]"
  let ?X = "createOrder no_faults ex_gateway 20 ex_db ?req"
  let ?Y = "snd (update_product False 30 (fst (snd ?X)) 1 (ex_update 12999 5))"
  have ne: "orders (fst (snd ?X)) \<noteq> orders ex_db"
    by code_simp
  have x: "?X = (fst ?X, fst (snd ?X), snd (snd ?X))"
    by simp
  note inst = C9_price_snapshot [of False 30 "fst (snd ?X)" 1 "ex_update 12999 5" 2
        no_faults ex_gateway 20 ex_db ?req "fst ?X" "fst (snd ?X)" "snd (snd ?X)"]
  from inst x ne obtain u :: user and its ps where
    c: "findByTelegramId ex_db (the (rq_telegram_id ?req)) = Some u"
      "rq_items ?req = Some its"
      "map (\<lambda>item. productQueries_getById ex_db (ri_product_id item)) its = map Some ps"
      "orders (fst (snd ?X)) = orders ex_db @
           [\<lparr>o_id = orders_id_seq ex_db, o_user_id = u_id u,
             o_total_price =
               sum_list (map (\<lambda>(product, item). p_price_usd product * ri_quantity item) (zip ps its)),
             o_status = ''pending'', o_updated_at = 20\<rparr>]"
      "order_items (fst (snd ?X)) = order_items ex_db @
           map (\<lambda>(product, item).
                 \<lparr>oi_order_id = orders_id_seq ex_db, oi_product_id = ri_product_id item,
                  oi_quantity = ri_quantity item, oi_price_per_item = p_price_usd product,
                  oi_total_price = p_price_usd product * ri_quantity item\<rparr>) (zip ps its)"
      "orders ?Y = orders (fst (snd ?X))"
      "order_items ?Y = order_items (fst (snd ?X))"
    by blast
  have its: "its = [\<lparr>ri_product_id = 1, ri_quantity = 2\<rparr>]"
    using c(2) by (simp add: ex_req_def)
  have "findByTelegramId ex_db (the (rq_telegram_id ?req)) = Some \<lparr>u_id = 1, u_telegram_id = 1001\<rparr>"
    by code_simp
  with c(1) have u: "u_id u = 1"
    by simp
  have "productQueries_getById ex_db 1 =
      Some \<lparr>p_id = 1, p_name = ''Course'', p_description = None, p_price_usd = 9999,
          p_image_url = None, p_stock = 5, p_is_active = True, p_updated_at = 0\<rparr>"
    by code_simp
  with c(3) its have ps: "ps = [\<lparr>p_id = 1, p_name = ''Course'', p_description = None, p_price_usd = 9999,
          p_image_url = None, p_stock = 5, p_is_active = True, p_updated_at = 0\<rparr>]"
    by (cases ps) auto
  have seq: "orders_id_seq ex_db = 2"
    by code_simp
  have rows: "order_items ?Y = order_items ex_db @
         [\<lparr>oi_order_id = 2, oi_product_id = 1, oi_quantity = 2, oi_price_per_item = 9999,
           oi_total_price = 19998\<rparr>]"
    unfolding c(7) c(5) its ps seq by simp
  have ord: "orders ?Y = orders ex_db @
         [\<lparr>o_id = 2, o_user_id = 1, o_total_price = 19998, o_status = ''pending'',
           o_updated_at = 20\<rparr>]"
    unfolding c(6) c(4) its ps seq u by simp
  have price: "map_option p_price_usd (productQueries_getById ?Y 1) = Some 12999"
    by code_simp
  have v1: "map_option ov_total_price (orderQueries_getById (fst (snd ?X)) 2) = Some 19998"
    by code_simp
  have v2: "map_option (\<lambda>v. map ji_price_per_item (ov_items v)) (orderQueries_getById (fst (snd ?X)) 2)
      = Some [Some 9999]"
    by code_simp
  have v3: "map_option (\<lambda>v. map ji_total_price (ov_items v)) (orderQueries_getById (fst (snd ?X)) 2)
      = Some [Some 19998]"
    by code_simp
  from inst have w1: "map_option ov_total_price (orderQueries_getById ?Y 2)
      = map_option ov_total_price (orderQueries_getById (fst (snd ?X)) 2)"
    and w2: "map_option (\<lambda>v. map ji_price_per_item (ov_items v)) (orderQueries_getById ?Y 2)
      = map_option (\<lambda>v. map ji_price_per_item (ov_items v)) (orderQueries_getById (fst (snd ?X)) 2)"
    and w3: "map_option (\<lambda>v. map ji_total_price (ov_items v)) (orderQueries_getById ?Y 2)
      = map_option (\<lambda>v. map ji_total_price (ov_items v)) (orderQueries_getById (fst (snd ?X)) 2)"
    by blast+
  show ?thesis
    using ne rows ord price w1 w2 w3 v1 v2 v3 by simp
qed

lemma validate_items_unacceptable:
  "\<not> list_all (acceptable d) its \<Longrightarrow>
   \<exists>r. validate_items fails d k its tot acc = Inl r"
proof (induction its arbitrary: k tot acc)
  case Nil
  then show ?case by simp
next
  case (Cons item rest)
  show ?case
  proof (cases "acceptable d item")
    case True
    with Cons.prems have "\<not> list_all (acceptable d) rest"
      by simp
    from Cons.IH [OF this] True show ?thesis
      by (auto simp: acceptable_def Let_def split: option.splits)
  next
    case False
    then show ?thesis
      by (auto simp: acceptable_def split: option.splits)
  qed
qed

lemma snapshot_quantity:
  "snapshot d item = Some oi \<Longrightarrow> it_quantity oi = ri_quantity item"
  by (auto simp: snapshot_def)

lemma update_stocks_no_faults:
  "(\<And>j. \<not> fails (UpdateStock j)) \<Longrightarrow> fst (update_stocks fails now d k its) = Inr ()"
proof (induction its arbitrary: d k)
  case Nil
  then show ?case by simp
next
  case (Cons item rest)
  obtain ok d1 where u: "updateStock now d (it_product_id item) (it_quantity item) = (ok, d1)"
    by (cases "updateStock now d (it_product_id item) (it_quantity item)")
  obtain r2 d2 log2 where rest: "update_stocks fails now d1 (Suc k) rest = (r2, d2, log2)"
    by (cases "update_stocks fails now d1 (Suc k) rest")
  from Cons.IH [OF Cons.prems, of d1 "Suc k"] rest have "r2 = Inr ()"
    by simp
  with Cons.prems u rest show ?case
    by simp
qed

lemma createOrder_after_commit:
  assumes "\<not> falsy (rq_telegram_id req)" "rq_items req = Some its" "its \<noteq> []"
    "\<not> fails FindUser" "findByTelegramId d (the (rq_telegram_id req)) = Some u"
    "validate_items fails d 0 its 0 [] = Inr (t, ois)"
    "orderQueries_create fails now d (u_id u) ois t = (Inr ord, w)"
  shows "orders (fst (snd (createOrder fails gateway now d req))) = orders w \<and>
         order_items (fst (snd (createOrder fails gateway now d req))) = order_items w"
proof (cases "gateway (currency_of req) t (o_id ord)")
  case None
  with assms show ?thesis
    by (simp add: createOrder_def)
next
  case (Some plisioInvoice)
  show ?thesis
  proof (cases "fails InsertInvoice \<or>
                invoiceQueries_create w (invoice_row ord t plisioInvoice) = Inl DbError")
    case True
    with assms Some show ?thesis
      by (auto simp: createOrder_def)
  next
    case False
    then have d2: "invoiceQueries_create w (invoice_row ord t plisioInvoice)
        = Inr (w\<lparr>invoices := invoices w @ [invoice_row ord t plisioInvoice]\<rparr>)"
      by (auto simp: invoiceQueries_create_def)
    obtain x d3 lg where us: "update_stocks fails now
        (w\<lparr>invoices := invoices w @ [invoice_row ord t plisioInvoice]\<rparr>) 0 ois = (x, d3, lg)"
      by (metis prod_cases3)
    from update_stocks_frame [OF us] have "orders d3 = orders w" "order_items d3 = order_items w"
      by simp_all
    moreover from assms Some False d2 us
    have "fst (snd (createOrder fails gateway now d req)) = d3"
      by (auto simp: createOrder_def split: sum.splits)
    ultimately show ?thesis by simp
  qed
qed

text \<open>
  C10. The order route has no check on the sign of a quantity. The only test of a
  quantity is against the stock: a request with an item whose product is not found or
  whose quantity exceeds the stock persists nothing and is answered with 400, 404 or
  500. A request of a known user whose items all name active products with a quantity
  of at most the stock, be it zero or negative, passes: when no query of the
  transaction fails, the order row and one row per item are committed, with the
  quantities as they were requested.
\<close>

theorem C10_quantity_checked_against_stock_only:
  "(rq_items req = Some its \<and> \<not> list_all (acceptable d) its \<longrightarrow>
      snd (createOrder fails gateway now d req) = (d, []) \<and>
      status_code (fst (createOrder fails gateway now d req)) \<in> {400, 404, 500}) \<and>
   (rq_items req = Some its \<and> its \<noteq> [] \<and> list_all (acceptable d) its \<and>
    \<not> falsy (rq_telegram_id req) \<and> findByTelegramId d (the (rq_telegram_id req)) = Some (u::user) \<and>
    \<not> fails FindUser \<and> (\<forall>j. \<not> fails (GetProduct j)) \<and> \<not> fails Connect \<and> \<not> fails Begin \<and>
    \<not> fails InsertOrder \<and> (\<forall>j. \<not> fails (InsertItem j)) \<and> \<not> fails Commit \<longrightarrow>
      (\<exists>ois. map Some ois = map (snapshot d) its \<and>
         map it_quantity ois = map ri_quantity its \<and>
         orders (fst (snd (createOrder fails gateway now d req)))
           = orders d @ [new_order now d (u_id u) (sum_list (map it_total_price ois))] \<and>
         order_items (fst (snd (createOrder fails gateway now d req)))
           = order_items d @ map (item_row (orders_id_seq d)) ois))"
proof (intro conjI impI)
  assume h: "rq_items req = Some its \<and> \<not> list_all (acceptable d) its"
  then obtain r where r: "validate_items fails d 0 its 0 [] = Inl r"
    using validate_items_unacceptable by blast
  then have "status_code r \<in> {400, 500}"
    by (rule validate_items_rejects)
  with h r show "snd (createOrder fails gateway now d req) = (d, [])"
    and "status_code (fst (createOrder fails gateway now d req)) \<in> {400, 404, 500}"
    by (auto simp: createOrder_def split: option.splits)
next
  assume h: "rq_items req = Some its \<and> its \<noteq> [] \<and> list_all (acceptable d) its \<and>
    \<not> falsy (rq_telegram_id req) \<and> findByTelegramId d (the (rq_telegram_id req)) = Some (u::user) \<and>
    \<not> fails FindUser \<and> (\<forall>j. \<not> fails (GetProduct j)) \<and> \<not> fails Connect \<and> \<not> fails Begin \<and>
    \<not> fails InsertOrder \<and> (\<forall>j. \<not> fails (InsertItem j)) \<and> \<not> fails Commit"
  then obtain t ois where v: "validate_items fails d 0 its 0 [] = Inr (t, ois)"
    using validate_items_accepts [of fails d its 0 0 "[]"] by blast
  from validate_items_snapshot [OF v]
  have snap: "map Some ois = map (snapshot d) its" and t: "t = sum_list (map it_total_price ois)"
    by simp_all
  have len: "length ois = length its"
    using snap by (metis length_map)
  have qty: "map it_quantity ois = map ri_quantity its"
  proof (rule nth_equalityI)
    show "length (map it_quantity ois) = length (map ri_quantity its)"
      using len by simp
  next
    fix i assume "i < length (map it_quantity ois)"
    then have i: "i < length ois" "i < length its"
      using len by simp_all
    from snap have "map Some ois ! i = map (snapshot d) its ! i"
      by simp
    with i have "snapshot d (its ! i) = Some (ois ! i)"
      by simp
    then have "it_quantity (ois ! i) = ri_quantity (its ! i)"
      by (rule snapshot_quantity)
    with i show "map it_quantity ois ! i = map ri_quantity its ! i"
      by simp
  qed
  have c: "orderQueries_create fails now d (u_id u) ois t =
             (Inr (new_order now d (u_id u) t), with_order now d (u_id u) ois t)"
    using h by (intro orderQueries_create_no_faults) simp_all
  have "orders (fst (snd (createOrder fails gateway now d req))) = orders (with_order now d (u_id u) ois t)
      \<and> order_items (fst (snd (createOrder fails gateway now d req)))
          = order_items (with_order now d (u_id u) ois t)"
    using h v c by (intro createOrder_after_commit) simp_all
  with snap qty t
  show "\<exists>ois. map Some ois = map (snapshot d) its \<and>
         map it_quantity ois = map ri_quantity its \<and>
         orders (fst (snd (createOrder fails gateway now d req)))
           = orders d @ [new_order now d (u_id u) (sum_list (map it_total_price ois))] \<and>
         order_items (fst (snd (createOrder fails gateway now d req)))
           = order_items d @ map (item_row (orders_id_seq d)) ois"
    by (auto simp: with_order_def)
qed


lemma item_row_quantity: "map (oi_quantity \<circ> item_row oid) ois = map it_quantity ois"
  by (simp add: item_row_def comp_def)

theorem C10_witness:
  "snd (createOrder no_faults ex_gateway 20 ex_db (ex_req [\<lparr>ri_product_id = 1, ri_quantity = 6\<rparr>]))
     = (ex_db, []) \<and>
   map oi_quantity (order_items (fst (snd (createOrder no_faults ex_gateway 20 ex_db
       (ex_req [\<lparr>ri_product_id = 1, ri_quantity = 0\<rparr>, \<lparr>ri_product_id = 2, ri_quantity = - 1\<rparr>])))))
     = [1, 0, - 1]"
proof -
  let ?A = "[\<lparr>ri_product_id = 1, ri_quantity = 6\<rparr>]"
  let ?B = "[\<lparr>ri_product_id = 1, ri_quantity = 0\<rparr>, \<lparr>ri_product_id = 2, ri_quantity = - 1\<rparr>]"
  let ?u = "\<lparr>u_id = 1, u_telegram_id = 1001\<rparr>"
  have a: "rq_items (ex_req ?A) = Some ?A \<and> \<not> list_all (acceptable ex_db) ?A"
    by (simp add: ex_req_def acceptable_def productQueries_getById_def ex_db_def)
  have b: "rq_items (ex_req ?B) = Some ?B \<and> ?B \<noteq> [] \<and> list_all (acceptable ex_db) ?B \<and>
    \<not> falsy (rq_telegram_id (ex_req ?B)) \<and>
    findByTelegramId ex_db (the (rq_telegram_id (ex_req ?B))) = Some ?u \<and>
    \<not> no_faults FindUser \<and> (\<forall>j. \<not> no_faults (GetProduct j)) \<and> \<not> no_faults Connect \<and>
    \<not> no_faults Begin \<and> \<not> no_faults InsertOrder \<and> (\<forall>j. \<not> no_faults (InsertItem j)) \<and>
    \<not> no_faults Commit"
    by (simp add: ex_req_def acceptable_def productQueries_getById_def ex_db_def falsy_def
          findByTelegramId_def no_faults_def)
  from C10_quantity_checked_against_stock_only
         [where req = "ex_req ?A" and its = ?A and d = ex_db and fails = no_faults
            and gateway = ex_gateway and now = 20] a
  have 1: "snd (createOrder no_faults ex_gateway 20 ex_db (ex_req ?A)) = (ex_db, [])"
    by blast
  from C10_quantity_checked_against_stock_only
         [where req = "ex_req ?B" and its = ?B and d = ex_db and fails = no_faults
            and gateway = ex_gateway and now = 20 and u = ?u] b
  obtain ois where "map it_quantity ois = map ri_quantity ?B"
    "order_items (fst (snd (createOrder no_faults ex_gateway 20 ex_db (ex_req ?B))))
       = order_items ex_db @ map (item_row (orders_id_seq ex_db)) ois"
    by blast
  then have "map oi_quantity (order_items (fst (snd (createOrder no_faults ex_gateway 20 ex_db
       (ex_req ?B))))) = map oi_quantity (order_items ex_db) @ map ri_quantity ?B"
    by (simp add: item_row_quantity)
  then have 2: "map oi_quantity (order_items (fst (snd (createOrder no_faults ex_gateway 20 ex_db
       (ex_req ?B))))) = [1, 0, - 1]"
    by (simp add: ex_db_def)
  from 1 2 show ?thesis by simp
qed

theorem C10_counterexample:
  "status_code (fst (createOrder no_faults (\<lambda>currency amount order_number. None) 20 ex_db
       (ex_req [\<lparr>ri_product_id = 1, ri_quantity = - 2\<rparr>]))) = 500 \<and>
   map oi_quantity (order_items (fst (snd (createOrder no_faults
       (\<lambda>currency amount order_number. None) 20 ex_db
       (ex_req [\<lparr>ri_product_id = 1, ri_quantity = - 2\<rparr>]))))) = [1, - 2] \<and>
   map o_total_price (orders (fst (snd (createOrder no_faults
       (\<lambda>currency amount order_number. None) 20 ex_db
       (ex_req [\<lparr>ri_product_id = 1, ri_quantity = - 2\<rparr>]))))) = [9999, - 19998] \<and>
   status_code (fst (createOrder no_faults ex_gateway 20 ex_db
       (ex_req [\<lparr>ri_product_id = 1, ri_quantity = - 2\<rparr>]))) = 201 \<and>
   map oi_quantity (order_items (fst (snd (createOrder no_faults ex_gateway 20 ex_db
       (ex_req [\<lparr>ri_product_id = 1, ri_quantity = - 2\<rparr>]))))) = [1, - 2] \<and>
   stock_of ex_db 1 = Some 5 \<and>
   stock_of (fst (snd (createOrder no_faults ex_gateway 20 ex_db
       (ex_req [\<lparr>ri_product_id = 1, ri_quantity = - 2\<rparr>])))) 1 = Some 7"
  by code_simp

text \<open>
  C6. The order row and its item rows are inserted in a transaction of their own,
  all or nothing: after a request either no table has changed, or the order row and
  one row per requested item are there. The stock is not reserved in that
  transaction. When the order is committed and the gateway or the insertion of the
  invoice fails, the order stays and no stock has changed. Otherwise the invoice is
  stored and only then the conditional updates of the stock run, one per item; the
  answer is 201 when none of these queries rejects, whatever they returned.
\<close>

theorem C6_order_rows_atomic_stock_afterwards:
  assumes "createOrder fails gateway now d req = (r, d', log)"
  shows "(orders d' = orders d \<and> order_items d' = order_items d \<and> invoices d' = invoices d \<and>
          products d' = products d \<and> log = [] \<and> status_code r \<in> {400, 404, 500})
       \<or> (\<exists>(u::user) its t ois.
            rq_items req = Some its \<and> validate_items fails d 0 its 0 [] = Inr (t, ois) \<and>
            length ois = length its \<and>
            orders d' = orders d @ [new_order now d (u_id u) t] \<and>
            order_items d' = order_items d @ map (item_row (orders_id_seq d)) ois \<and>
            ((r = ServerError \<and> invoices d' = invoices d \<and> products d' = products d \<and> log = [])
             \<or> (\<exists>plisioInvoice x.
                  gateway (currency_of req) t (orders_id_seq d) = Some plisioInvoice \<and>
                  invoices d' = invoices d @ [invoice_row (new_order now d (u_id u) t) t plisioInvoice] \<and>
                  update_stocks fails now
                    ((with_order now d (u_id u) ois t)
                       \<lparr>invoices := invoices d @ [invoice_row (new_order now d (u_id u) t) t plisioInvoice]\<rparr>)
                    0 ois = (x, d', log) \<and>
                  r = (case x of Inl e \<Rightarrow> ServerError
                       | Inr _ \<Rightarrow> Created (new_order now d (u_id u) t)
                                   (invoice_row (new_order now d (u_id u) t) t plisioInvoice)) \<and>
                  ((\<forall>j. \<not> fails (UpdateStock j)) \<longrightarrow> x = Inr ()))))"
  using assms
proof (cases rule: createOrder_cases)
  case rejected
  then show ?thesis by auto
next
  case (no_invoice u its t ois)
  from validate_items_snapshot [OF no_invoice(3)] have "length ois = length its"
    by (metis append_Nil length_map list.simps(8))
  with no_invoice show ?thesis
    by (auto simp: with_order_def)
next
  case (invoiced u its t ois plisioInvoice x)
  from validate_items_snapshot [OF invoiced(3)] have len: "length ois = length its"
    by (metis append_Nil length_map list.simps(8))
  from update_stocks_frame [OF invoiced(5)]
  have fr: "orders d' = orders d @ [new_order now d (u_id u) t]"
    "order_items d' = order_items d @ map (item_row (orders_id_seq d)) ois"
    "invoices d' = invoices d @ [invoice_row (new_order now d (u_id u) t) t plisioInvoice]"
    by (simp_all add: with_order_def)
  have "(\<forall>j. \<not> fails (UpdateStock j)) \<longrightarrow> x = Inr ()"
    using update_stocks_no_faults [of fails now _ 0 ois] invoiced(5)
    by (metis fst_conv)
  with invoiced len fr show ?thesis
    by blast
qed

theorem C6_witness:
  "\<exists>t ois. length ois = 2 \<and>
     orders (fst (snd (createOrder no_faults ex_gateway 20 ex_db
        (ex_req [\<lparr>ri_product_id = 1, ri_quantity = 2\<rparr>, \<lparr>ri_product_id = 2, ri_quantity = 1\<rparr>]))))
       = orders ex_db @ [new_order 20 ex_db 1 t] \<and>
     order_items (fst (snd (createOrder no_faults ex_gateway 20 ex_db
        (ex_req [\<lparr>ri_product_id = 1, ri_quantity = 2\<rparr>, \<lparr>ri_product_id = 2, ri_quantity = 1\<rparr>]))))
       = order_items ex_db @ map (item_row (orders_id_seq ex_db)) ois"
proof -
  let ?req = "ex_req [\<lparr>ri_product_id = 1, ri_quantity = 2\<rparr>, \<lparr>ri_product_id = 2, ri_quantity = 1\<rparr>]"
  let ?X = "createOrder no_faults ex_gateway 20 ex_db ?req"
  have run: "?X = (fst ?X, fst (snd ?X), snd (snd ?X))"
    by simp
  have ne: "orders (fst (snd ?X)) \<noteq> orders ex_db"
    by code_simp
  have its: "rq_items ?req = Some [\<lparr>ri_product_id = 1, ri_quantity = 2\<rparr>, \<lparr>ri_product_id = 2, ri_quantity = 1\<rparr>]"
    by (simp add: ex_req_def)
  have uid: "\<And>u::user. u \<in> set (users ex_db) \<Longrightarrow> u_id u = 1"
    by (simp add: ex_db_def)
  from C6_order_rows_atomic_stock_afterwards [OF run] ne
  obtain u :: user and its t ois where
    "rq_items ?req = Some its" "length ois = length its"
    "orders (fst (snd ?X)) = orders ex_db @ [new_order 20 ex_db (u_id u) t]"
    "order_items (fst (snd ?X)) = order_items ex_db @ map (item_row (orders_id_seq ex_db)) ois"
    by auto
  moreover have "orders (fst (snd ?X)) = orders ex_db @ [new_order 20 ex_db 1 (o_total_price (last (orders (fst (snd ?X)))))]"
    by code_simp
  ultimately show ?thesis
    using its by (metis length_Cons list.size(3) numeral_2_eq_2 option.inject)
qed

theorem C6_counterexample:
  "status_code (fst (createOrder no_faults ex_gateway 20 ex_db
       (ex_req [\<lparr>ri_product_id = 1, ri_quantity = 3\<rparr>, \<lparr>ri_product_id = 1, ri_quantity = 3\<rparr>]))) = 201 \<and>
   snd (snd (createOrder no_faults ex_gateway 20 ex_db
       (ex_req [\<lparr>ri_product_id = 1, ri_quantity = 3\<rparr>, \<lparr>ri_product_id = 1, ri_quantity = 3\<rparr>])))
     = [(1, 3)] \<and>
   map o_id (orders (fst (snd (createOrder no_faults ex_gateway 20 ex_db
       (ex_req [\<lparr>ri_product_id = 1, ri_quantity = 3\<rparr>, \<lparr>ri_product_id = 1, ri_quantity = 3\<rparr>])))))
     = [1, 2] \<and>
   map oi_quantity (order_items (fst (snd (createOrder no_faults ex_gateway 20 ex_db
       (ex_req [\<lparr>ri_product_id = 1, ri_quantity = 3\<rparr>, \<lparr>ri_product_id = 1, ri_quantity = 3\<rparr>])))))
     = [1, 3, 3] \<and>
   stock_of ex_db 1 = Some 5 \<and>
   stock_of (fst (snd (createOrder no_faults ex_gateway 20 ex_db
       (ex_req [\<lparr>ri_product_id = 1, ri_quantity = 3\<rparr>, \<lparr>ri_product_id = 1, ri_quantity = 3\<rparr>])))) 1
     = Some 2 \<and>
   status_code (fst (createOrder no_faults (\<lambda>currency amount order_number. None) 20 ex_db
       (ex_req [\<lparr>ri_product_id = 1, ri_quantity = 3\<rparr>]))) = 500 \<and>
   map o_id (orders (fst (snd (createOrder no_faults (\<lambda>currency amount order_number. None) 20 ex_db
       (ex_req [\<lparr>ri_product_id = 1, ri_quantity = 3\<rparr>]))))) = [1, 2] \<and>
   stock_of (fst (snd (createOrder no_faults (\<lambda>currency amount order_number. None) 20 ex_db
       (ex_req [\<lparr>ri_product_id = 1, ri_quantity = 3\<rparr>])))) 1 = Some 5"
  by code_simp

section \<open>Stock\<close>

lemma updateStock_ok_iff:
  "fst (updateStock now d pid q) \<longleftrightarrow> list_ex (\<lambda>p. p_id p = pid \<and> q \<le> p_stock p) (products d)"
  by (auto simp: updateStock_def list_ex_iff filter_empty_conv)

lemma updateStock_refused:
  "\<not> fst (updateStock now d pid q) \<Longrightarrow> snd (updateStock now d pid q) = d"
proof -
  assume "\<not> fst (updateStock now d pid q)"
  then have "\<forall>p \<in> set (products d). \<not> (p_id p = pid \<and> q \<le> p_stock p)"
    by (auto simp: updateStock_def filter_empty_conv)
  then have "map (\<lambda>p. if p_id p = pid \<and> p_stock p \<ge> q
                         then p\<lparr>p_stock := p_stock p - q, p_updated_at := now\<rparr> else p) (products d)
             = products d"
    by (intro map_idI) auto
  then show ?thesis
    by (simp add: updateStock_def)
qed

lemma updateStock_nonneg:
  "stock_nonneg d \<Longrightarrow> stock_nonneg (snd (updateStock now d pid q))"
  by (auto simp: stock_nonneg_def updateStock_def list_all_iff)

lemma find_by_id_map:
  assumes "\<And>p. p_id (f p) = p_id p"
  shows "find (\<lambda>p. p_id p = k) (map f ps) = map_option f (find (\<lambda>p. p_id p = k) ps)"
  using assms by (induction ps) auto

lemma distinct_find_unique:
  "distinct (map p_id ps) \<Longrightarrow> find (\<lambda>p. p_id p = k) ps = Some p \<Longrightarrow> p' \<in> set ps \<Longrightarrow>
   p_id p' = k \<Longrightarrow> p' = p"
  by (induction ps) (auto split: if_splits simp: find_Some_iff image_iff)

lemma updateStock_stock_of:
  assumes "distinct (map p_id (products d))"
  shows "stock_of (snd (updateStock now d pid q)) k =
           (if k = pid \<and> fst (updateStock now d pid q)
            then map_option (\<lambda>s. s - q) (stock_of d k) else stock_of d k)"
proof (cases "find (\<lambda>p. p_id p = k) (products d)")
  case None
  then have "\<forall>p \<in> set (products d). p_id p \<noteq> k"
    by (auto simp: find_None_iff)
  then have "k = pid \<Longrightarrow> \<not> fst (updateStock now d pid q)"
    by (auto simp: updateStock_ok_iff list_ex_iff)
  with None show ?thesis
    by (auto simp: stock_of_def updateStock_def find_by_id_map)
next
  case (Some p)
  then have pk: "p_id p = k" and pin: "p \<in> set (products d)"
    by (auto simp: find_Some_iff)
  have ok: "fst (updateStock now d pid q) \<longleftrightarrow> q \<le> p_stock p" if "k = pid"
  proof
    assume "fst (updateStock now d pid q)"
    then obtain p' where "p' \<in> set (products d)" "p_id p' = pid" "q \<le> p_stock p'"
      by (auto simp: updateStock_ok_iff list_ex_iff)
    with distinct_find_unique [OF assms Some] that show "q \<le> p_stock p"
      by auto
  next
    assume "q \<le> p_stock p"
    with pk pin that show "fst (updateStock now d pid q)"
      by (auto simp: updateStock_ok_iff list_ex_iff)
  qed
  show ?thesis
    using Some pk ok
    by (auto simp: stock_of_def updateStock_def find_by_id_map)
qed

lemma updateStock_sufficient:
  assumes "distinct (map p_id (products d))" "fst (updateStock now d pid q)"
  shows "\<exists>s. stock_of d pid = Some s \<and> q \<le> s"
proof -
  from assms(2) obtain p where p: "p \<in> set (products d)" "p_id p = pid" "q \<le> p_stock p"
    by (auto simp: updateStock_ok_iff list_ex_iff)
  then obtain p' where f: "find (\<lambda>p. p_id p = pid) (products d) = Some p'"
    by (cases "find (\<lambda>p. p_id p = pid) (products d)") (auto simp: find_None_iff)
  from distinct_find_unique [OF assms(1) f p(1,2)] p f show ?thesis
    by (simp add: stock_of_def)
qed


lemma reserved_total_simps:
  "reserved_total k [] = 0"
  "reserved_total k ((p, q) # log) = (if p = k then q else 0) + reserved_total k log"
  "reserved_total k (log @ log') = reserved_total k log + reserved_total k log'"
  by (simp_all add: reserved_total_def)

lemma updateStock_reserves:
  assumes "distinct (map p_id (products d))" "stock_of d k = Some s" "0 \<le> s"
    and "updateStock now d pid q = (ok, d1)"
  shows "stock_of d1 k = Some (s - reserved_total k (if ok then [(pid, q)] else [])) \<and>
         0 \<le> s - reserved_total k (if ok then [(pid, q)] else []) \<and>
         distinct (map p_id (products d1))"
proof -
  have d1: "d1 = snd (updateStock now d pid q)" and ok: "ok = fst (updateStock now d pid q)"
    using assms(4) by simp_all
  have dist: "distinct (map p_id (products d1))"
    using updateStock_frame [OF assms(4)] assms(1) by simp
  show ?thesis
  proof (cases "k = pid \<and> ok")
    case True
    with updateStock_sufficient [OF assms(1), of now pid q] ok assms(2)
    have "q \<le> s" by auto
    with True assms(1,2) dist show ?thesis
      unfolding d1 ok by (simp add: updateStock_stock_of reserved_total_simps)
  next
    case False
    with assms(1,2,3) dist show ?thesis
      unfolding d1 ok by (auto simp: updateStock_stock_of reserved_total_simps)
  qed
qed

lemma update_stocks_reserves:
  "distinct (map p_id (products d)) \<Longrightarrow> stock_of d k = Some s \<Longrightarrow> 0 \<le> s \<Longrightarrow>
   update_stocks fails now d j its = (r, d', log) \<Longrightarrow>
   stock_of d' k = Some (s - reserved_total k log) \<and> 0 \<le> s - reserved_total k log \<and>
   distinct (map p_id (products d'))"
proof (induction its arbitrary: d j s r d' log)
  case Nil
  then show ?case by (simp add: reserved_total_simps)
next
  case (Cons item rest)
  show ?case
  proof (cases "fails (UpdateStock j)")
    case True
    with Cons.prems show ?thesis by (simp add: reserved_total_simps)
  next
    case False
    obtain ok d1 where u: "updateStock now d (it_product_id item) (it_quantity item) = (ok, d1)"
      by (cases "updateStock now d (it_product_id item) (it_quantity item)")
    obtain r2 d2 log2 where rest: "update_stocks fails now d1 (Suc j) rest = (r2, d2, log2)"
      by (cases "update_stocks fails now d1 (Suc j) rest")
    let ?l1 = "if ok then [(it_product_id item, it_quantity item)] else []"
    from Cons.prems(4) False u rest have res: "d' = d2" "log = ?l1 @ log2"
      by simp_all
    from updateStock_reserves [OF Cons.prems(1-3) u]
    have s1: "stock_of d1 k = Some (s - reserved_total k ?l1)" "0 \<le> s - reserved_total k ?l1"
      "distinct (map p_id (products d1))"
      by simp_all
    from Cons.IH [OF s1(3) s1(1) s1(2) rest] res show ?thesis
      by (simp add: reserved_total_simps)
  qed
qed

lemma update_stocks_nonneg:
  "stock_nonneg d \<Longrightarrow> update_stocks fails now d j its = (r, d', log) \<Longrightarrow> stock_nonneg d'"
proof (induction its arbitrary: d j r d' log)
  case Nil
  then show ?case by simp
next
  case (Cons item rest)
  show ?case
  proof (cases "fails (UpdateStock j)")
    case True
    with Cons.prems show ?thesis by simp
  next
    case False
    obtain ok d1 where u: "updateStock now d (it_product_id item) (it_quantity item) = (ok, d1)"
      by (cases "updateStock now d (it_product_id item) (it_quantity item)")
    obtain r2 d2 log2 where rest: "update_stocks fails now d1 (Suc j) rest = (r2, d2, log2)"
      by (cases "update_stocks fails now d1 (Suc j) rest")
    from updateStock_nonneg [OF Cons.prems(1), of now "it_product_id item" "it_quantity item"] u
    have "stock_nonneg d1" by simp
    from Cons.IH [OF this rest] Cons.prems(2) False u rest show ?thesis
      by simp
  qed
qed

lemma createOrder_products:
  assumes "createOrder fails gateway now d req = (r, d', log)"
  shows "(products d' = products d \<and> log = []) \<or>
         (\<exists>d0 j ois x. products d0 = products d \<and> update_stocks fails now d0 j ois = (x, d', log))"
  using assms
proof (cases rule: createOrder_cases)
  case rejected
  then show ?thesis by auto
next
  case (no_invoice u its t ois)
  then show ?thesis by (simp add: with_order_def)
next
  case (invoiced u its t ois plisioInvoice x)
  from invoiced(5) show ?thesis
    by (intro disjI2 exI conjI) (auto simp: with_order_def)
qed

lemma createOrder_reserves:
  assumes "distinct (map p_id (products d))" "stock_of d k = Some s" "0 \<le> s"
    and "createOrder fails gateway now d req = (r, d', log)"
  shows "stock_of d' k = Some (s - reserved_total k log) \<and> 0 \<le> s - reserved_total k log \<and>
         distinct (map p_id (products d'))"
  using createOrder_products [OF assms(4)]
proof
  assume "products d' = products d \<and> log = []"
  with assms(1-3) show ?thesis
    by (simp add: stock_of_def reserved_total_simps)
next
  assume "\<exists>d0 j ois x. products d0 = products d \<and> update_stocks fails now d0 j ois = (x, d', log)"
  then obtain d0 j ois x where d0: "products d0 = products d"
    and us: "update_stocks fails now d0 j ois = (x, d', log)"
    by blast
  from d0 assms(1-3) have "distinct (map p_id (products d0))" "stock_of d0 k = Some s"
    by (simp_all add: stock_of_def)
  from update_stocks_reserves [OF this assms(3) us] show ?thesis .
qed

lemma createOrder_nonneg:
  assumes "stock_nonneg d" "createOrder fails gateway now d req = (r, d', log)"
  shows "stock_nonneg d'"
  using createOrder_products [OF assms(2)]
proof
  assume "products d' = products d \<and> log = []"
  with assms(1) show ?thesis by (simp add: stock_nonneg_def)
next
  assume "\<exists>d0 j ois x. products d0 = products d \<and> update_stocks fails now d0 j ois = (x, d', log)"
  then obtain d0 j ois x where d0: "products d0 = products d"
    and us: "update_stocks fails now d0 j ois = (x, d', log)"
    by blast
  from d0 assms(1) have "stock_nonneg d0"
    by (simp add: stock_nonneg_def)
  from update_stocks_nonneg [OF this us] show ?thesis .
qed

lemma run_orders_reserves:
  "distinct (map p_id (products d)) \<Longrightarrow> stock_of d k = Some s \<Longrightarrow> 0 \<le> s \<Longrightarrow>
   run_orders d cs = (d', log) \<Longrightarrow>
   stock_of d' k = Some (s - reserved_total k log) \<and> 0 \<le> s - reserved_total k log"
proof (induction cs arbitrary: d s d' log)
  case Nil
  then show ?case by (simp add: reserved_total_simps)
next
  case (Cons c cs)
  obtain r d1 log1 where c: "createOrder (c_fails c) (c_gateway c) (c_now c) d (c_req c) = (r, d1, log1)"
    by (metis prod_cases3)
  obtain d2 log2 where rest: "run_orders d1 cs = (d2, log2)"
    by (cases "run_orders d1 cs")
  from Cons.prems(4) c rest have res: "d' = d2" "log = log1 @ log2"
    by simp_all
  from createOrder_reserves [OF Cons.prems(1-3) c]
  have s1: "stock_of d1 k = Some (s - reserved_total k log1)" "0 \<le> s - reserved_total k log1"
    "distinct (map p_id (products d1))"
    by simp_all
  from Cons.IH [OF s1(3) s1(1) s1(2) rest] res show ?case
    by (simp add: reserved_total_simps)
qed

lemma run_orders_nonneg:
  "stock_nonneg d \<Longrightarrow> run_orders d cs = (d', log) \<Longrightarrow> stock_nonneg d'"
proof (induction cs arbitrary: d d' log)
  case Nil
  then show ?case by simp
next
  case (Cons c cs)
  obtain r d1 log1 where c: "createOrder (c_fails c) (c_gateway c) (c_now c) d (c_req c) = (r, d1, log1)"
    by (metis prod_cases3)
  obtain d2 log2 where rest: "run_orders d1 cs = (d2, log2)"
    by (cases "run_orders d1 cs")
  from createOrder_nonneg [OF Cons.prems(1) c] have "stock_nonneg d1" .
  from Cons.IH [OF this rest] Cons.prems(2) c rest show ?case
    by simp
qed

lemma update_product_stock:
  assumes "pd_name pd = Some nm" "pd_stock pd = Some st"
  shows "stock_of (snd (update_product False now d pid pd)) pid
           = map_option (\<lambda>_. st) (stock_of d pid)"
proof (cases "find (\<lambda>p. p_id p = pid) (products d)")
  case None
  with assms show ?thesis
    by (simp add: update_product_def productQueries_update_def stock_of_def find_by_id_map Let_def)
next
  case (Some p)
  then have "p_id p = pid" "p \<in> set (products d)"
    by (auto simp: find_Some_iff)
  then have "list_ex (\<lambda>p. p_id p = pid) (products d)"
    by (auto simp: list_ex_iff)
  with Some \<open>p_id p = pid\<close> assms show ?thesis
    by (simp add: update_product_def productQueries_update_def stock_of_def find_by_id_map Let_def)
qed

lemma webhook_products:
  "products (snd (webhook fails hmac secretKey now d header body)) = products d"
  by (simp add: webhook_eq fulfil_eq orderQueries_updateStatus_def invoiceQueries_updateStatus_def
        split: option.splits)

text \<open>
  C7. \<^verbatim>\<open>updateStock\<close> reports success exactly when a row of the product has at least the
  quantity in stock, and a refused call changes nothing; with unique product ids a
  successful call takes exactly the quantity from a stock that was at least the
  quantity. No stock that was non-negative becomes negative by \<^verbatim>\<open>updateStock\<close>, by
  any sequence of requests for orders, by a webhook or by the deletion of a product.
  Over any sequence of requests for orders, for a product with the stock S, S at
  least 0, the quantities of the successful reservations sum to at most S, and the
  stock afterwards is S less that sum. An update of a product by the administrator
  writes the stock of the request as it is given.
\<close>

theorem C7_no_oversell:
  "(fst (updateStock now d pid q) \<longleftrightarrow> list_ex (\<lambda>p. p_id p = pid \<and> q \<le> p_stock p) (products d)) \<and>
   (\<not> fst (updateStock now d pid q) \<longrightarrow> snd (updateStock now d pid q) = d) \<and>
   (distinct (map p_id (products d)) \<and> fst (updateStock now d pid q) \<longrightarrow>
      (\<exists>s. stock_of d pid = Some s \<and> q \<le> s \<and>
           stock_of (snd (updateStock now d pid q)) pid = Some (s - q))) \<and>
   (stock_nonneg d \<longrightarrow>
      stock_nonneg (snd (updateStock now d pid q)) \<and>
      stock_nonneg (snd (webhook fails hmac secretKey now d header body)) \<and>
      stock_nonneg (productQueries_delete now d pid)) \<and>
   (stock_nonneg d \<and> run_orders d cs = (d', log) \<longrightarrow> stock_nonneg d') \<and>
   (distinct (map p_id (products d)) \<and> stock_of d k = Some S \<and> 0 \<le> S \<and>
    run_orders d cs = (d', log) \<longrightarrow>
      reserved_total k log \<le> S \<and> stock_of d' k = Some (S - reserved_total k log)) \<and>
   (pd_name pd = Some nm \<and> pd_stock pd = Some st \<longrightarrow>
      stock_of (snd (update_product False now d pid pd)) pid = map_option (\<lambda>_. st) (stock_of d pid))"
proof (intro conjI impI)
  show "fst (updateStock now d pid q) \<longleftrightarrow> list_ex (\<lambda>p. p_id p = pid \<and> q \<le> p_stock p) (products d)"
    by (rule updateStock_ok_iff)
next
  assume "\<not> fst (updateStock now d pid q)"
  then show "snd (updateStock now d pid q) = d"
    by (rule updateStock_refused)
next
  assume h: "distinct (map p_id (products d)) \<and> fst (updateStock now d pid q)"
  then obtain s where s: "stock_of d pid = Some s" "q \<le> s"
    using updateStock_sufficient by blast
  with h show "\<exists>s. stock_of d pid = Some s \<and> q \<le> s \<and>
           stock_of (snd (updateStock now d pid q)) pid = Some (s - q)"
    by (simp add: updateStock_stock_of)
next
  assume "stock_nonneg d"
  then show "stock_nonneg (snd (updateStock now d pid q))"
    by (rule updateStock_nonneg)
next
  assume "stock_nonneg d"
  then show "stock_nonneg (snd (webhook fails hmac secretKey now d header body))"
    by (simp add: stock_nonneg_def webhook_products)
next
  assume "stock_nonneg d"
  then show "stock_nonneg (productQueries_delete now d pid)"
    by (auto simp: stock_nonneg_def productQueries_delete_def list_all_iff)
next
  assume "stock_nonneg d \<and> run_orders d cs = (d', log)"
  then show "stock_nonneg d'"
    using run_orders_nonneg by blast
next
  assume h: "distinct (map p_id (products d)) \<and> stock_of d k = Some S \<and> 0 \<le> S \<and>
    run_orders d cs = (d', log)"
  then have r: "stock_of d' k = Some (S - reserved_total k log) \<and> 0 \<le> S - reserved_total k log"
    using run_orders_reserves [of d k S cs d' log] by simp
  then show "reserved_total k log \<le> S" by simp
  from r show "stock_of d' k = Some (S - reserved_total k log)" by simp
next
  assume "pd_name pd = Some nm \<and> pd_stock pd = Some st"
  then show "stock_of (snd (update_product False now d pid pd)) pid
               = map_option (\<lambda>_. st) (stock_of d pid)"
    using update_product_stock by blast
qed

theorem C7_witness:
  "fst (updateStock 20 ex_db 1 5) \<and>
   stock_of (snd (updateStock 20 ex_db 1 5)) 1 = Some 0 \<and>
   snd (updateStock 20 ex_db 1 6) = ex_db \<and>
   stock_nonneg (fst (run_orders ex_db ex_calls)) \<and>
   reserved_total 1 (snd (run_orders ex_db ex_calls)) \<le> 5 \<and>
   stock_of (fst (run_orders ex_db ex_calls)) 1
     = Some (5 - reserved_total 1 (snd (run_orders ex_db ex_calls))) \<and>
   stock_of (snd (update_product False 20 ex_db 1 (ex_update 9999 8))) 1 = Some 8"
proof -
  note thm5 = C7_no_oversell [where now = 20 and d = ex_db and pid = 1 and q = 5 and cs = ex_calls
      and d' = "fst (run_orders ex_db ex_calls)" and log = "snd (run_orders ex_db ex_calls)"
      and k = 1 and S = 5 and pd = "ex_update 9999 8" and nm = "''Course''" and st = 8
      and fails = no_faults and hmac = ex_hmac and secretKey = "''k''" and header = None
      and body = "[]"]
  note thm6 = C7_no_oversell [where now = 20 and d = ex_db and pid = 1 and q = 6 and cs = "[]"
      and d' = ex_db and log = "[]" and k = 1 and S = 5 and pd = "ex_update 9999 8"
      and nm = "''Course''" and st = 8
      and fails = no_faults and hmac = ex_hmac and secretKey = "''k''" and header = None
      and body = "[]"]
  have h1: "distinct (map p_id (products ex_db))" "stock_nonneg ex_db" "stock_of ex_db 1 = Some 5"
    "list_ex (\<lambda>p. p_id p = 1 \<and> 5 \<le> p_stock p) (products ex_db)"
    "\<not> list_ex (\<lambda>p. p_id p = 1 \<and> 6 \<le> p_stock p) (products ex_db)"
    "pd_name (ex_update 9999 8) = Some ''Course''" "pd_stock (ex_update 9999 8) = Some 8"
    by (simp_all add: ex_db_def stock_nonneg_def stock_of_def ex_update_def)
  have run: "run_orders ex_db ex_calls = (fst (run_orders ex_db ex_calls), snd (run_orders ex_db ex_calls))"
    by simp
  from thm5 h1 have ok: "fst (updateStock 20 ex_db 1 5)"
    by blast
  with thm5 h1 have a: "stock_of (snd (updateStock 20 ex_db 1 5)) 1 = Some 0"
    by auto
  from thm6 h1 have b: "snd (updateStock 20 ex_db 1 6) = ex_db"
    by blast
  from thm5 h1 run have c1: "stock_nonneg (fst (run_orders ex_db ex_calls))"
    by blast
  have five: "(0::int) \<le> 5" by simp
  from thm5 h1 run five have c2: "reserved_total 1 (snd (run_orders ex_db ex_calls)) \<le> 5 \<and>
    stock_of (fst (run_orders ex_db ex_calls)) 1
       = Some (5 - reserved_total 1 (snd (run_orders ex_db ex_calls)))"
    by blast
  from thm5 h1 have "stock_of (snd (update_product False 20 ex_db 1 (ex_update 9999 8))) 1
       = map_option (\<lambda>_. 8) (stock_of ex_db 1)"
    by blast
  with h1 have e: "stock_of (snd (update_product False 20 ex_db 1 (ex_update 9999 8))) 1 = Some 8"
    by simp
  from ok a b c1 c2 e show ?thesis by simp
qed

theorem C7_counterexample:
  "stock_nonneg ex_db \<and>
   fst (update_product False 30 ex_db 1 (ex_update 9999 (- 5))) = Accepted \<and>
   stock_of (snd (update_product False 30 ex_db 1 (ex_update 9999 (- 5)))) 1 = Some (- 5) \<and>
   \<not> stock_nonneg (snd (update_product False 30 ex_db 1 (ex_update 9999 (- 5))))"
  by code_simp

section \<open>Reconciliation\<close>

lemma find_updated_invoice:
  "find (\<lambda>iv. k = Some (i_plisio_invoice_id iv))
        (map (\<lambda>iv. if k = Some (i_plisio_invoice_id iv) then iv\<lparr>i_status := s, i_paid_at := p\<rparr> else iv) xs)
   = map_option (\<lambda>iv. iv\<lparr>i_status := s, i_paid_at := p\<rparr>)
       (find (\<lambda>iv. k = Some (i_plisio_invoice_id iv)) xs)"
  by (induction xs) auto

lemma getByPlisioId_updated:
  "getByPlisioId (invoiceQueries_updateStatus d t s p) t
     = map_option (\<lambda>iv. iv\<lparr>i_status := s, i_paid_at := p\<rparr>) (getByPlisioId d t)"
  by (simp add: getByPlisioId_def invoiceQueries_updateStatus_def find_updated_invoice)

lemma getByPlisioId_order_update:
  "getByPlisioId (orderQueries_updateStatus now d oid st) t = getByPlisioId d t"
  by (simp add: getByPlisioId_def orderQueries_updateStatus_def)

lemma webhook_invoices:
  assumes "verifyWebhookSignature hmac secretKey body (received_signature header body)"
    "getByPlisioId d (map_of body ''txn_id'') = Some iv" "\<not> fails GetInvoice" "\<not> fails UpdateInvoice"
  shows "invoices (snd (webhook fails hmac secretKey now d header body)) =
           invoices (invoiceQueries_updateStatus d (map_of body ''txn_id'')
             (mapPlisioStatus (map_of body ''status''))
             (if map_of body ''status'' = Some (JStr ''completed'') then Some now else None))"
  using assms
  by (auto simp: webhook_eq fulfil_eq orderQueries_updateStatus_def mapPlisioStatus_completed)

lemma webhook_found_again:
  assumes "verifyWebhookSignature hmac secretKey body (received_signature header body)"
    "getByPlisioId d (map_of body ''txn_id'') = Some iv" "\<not> fails GetInvoice" "\<not> fails UpdateInvoice"
  shows "getByPlisioId (snd (webhook fails hmac secretKey now d header body)) (map_of body ''txn_id'')
           = Some (iv\<lparr>i_status := mapPlisioStatus (map_of body ''status''),
                     i_paid_at := (if map_of body ''status'' = Some (JStr ''completed'')
                                   then Some now else None)\<rparr>)"
proof -
  have "getByPlisioId (snd (webhook fails hmac secretKey now d header body)) (map_of body ''txn_id'')
        = find (\<lambda>iv. pg_param (map_of body ''txn_id'') = Some (i_plisio_invoice_id iv))
            (invoices (snd (webhook fails hmac secretKey now d header body)))"
    by (simp add: getByPlisioId_def)
  also have "\<dots> = getByPlisioId (invoiceQueries_updateStatus d (map_of body ''txn_id'')
             (mapPlisioStatus (map_of body ''status''))
             (if map_of body ''status'' = Some (JStr ''completed'') then Some now else None))
             (map_of body ''txn_id'')"
    unfolding webhook_invoices [OF assms] by (simp add: getByPlisioId_def)
  finally show ?thesis
    using assms(2) by (simp add: getByPlisioId_updated)
qed

text \<open>
  C4. The route writes the status of the payload without looking at the status the
  invoice has. For a payload whose signature verifies and whose invoice is known, no
  query failing, the invoices after the request are those of the unconditional
  update: the invoice has the mapped status of the payload, and as \<^verbatim>\<open>paid_at\<close> the time
  of the request when the status of the payload is \<^verbatim>\<open>completed\<close> and NULL otherwise.
  When the status of the payload is not \<^verbatim>\<open>completed\<close> the request is answered 200
  and nothing else has changed.
\<close>

theorem C4_status_written_unconditionally:
  assumes "verifyWebhookSignature hmac secretKey body (received_signature header body)"
    and "getByPlisioId d (map_of body ''txn_id'') = Some iv"
    and "\<not> fails GetInvoice" and "\<not> fails UpdateInvoice"
  shows "invoices (snd (webhook fails hmac secretKey now d header body)) =
           invoices (invoiceQueries_updateStatus d (map_of body ''txn_id'')
             (mapPlisioStatus (map_of body ''status''))
             (if map_of body ''status'' = Some (JStr ''completed'') then Some now else None)) \<and>
         getByPlisioId (snd (webhook fails hmac secretKey now d header body)) (map_of body ''txn_id'')
           = Some (iv\<lparr>i_status := mapPlisioStatus (map_of body ''status''),
                     i_paid_at := (if map_of body ''status'' = Some (JStr ''completed'')
                                   then Some now else None)\<rparr>) \<and>
         (map_of body ''status'' \<noteq> Some (JStr ''completed'') \<longrightarrow>
            webhook fails hmac secretKey now d header body =
              (Accepted, invoiceQueries_updateStatus d (map_of body ''txn_id'')
                           (mapPlisioStatus (map_of body ''status'')) None))"
  using webhook_invoices [OF assms] webhook_found_again [OF assms] assms
  by (simp add: webhook_eq)

theorem C4_witness:
  "getByPlisioId (snd (webhook no_faults ex_hmac ''k'' 30
       (snd (webhook no_faults ex_hmac ''k'' 20 ex_db None (signed ex_hmac ''k'' (ex_body (JStr ''completed'')))))
       None (signed ex_hmac ''k'' (ex_body (JStr ''pending''))))) (Some (JStr ''txn1''))
     = Some \<lparr>i_order_id = 1, i_plisio_invoice_id = ''txn1'', i_currency = ''BTC'',
             i_amount_usd = 9999, i_status = ''pending'', i_paid_at = None\<rparr>"
proof -
  let ?d1 = "snd (webhook no_faults ex_hmac ''k'' 20 ex_db None (signed ex_hmac ''k'' (ex_body (JStr ''completed''))))"
  let ?body = "signed ex_hmac ''k'' (ex_body (JStr ''pending''))"
  let ?iv = "\<lparr>i_order_id = 1, i_plisio_invoice_id = ''txn1'', i_currency = ''BTC'',
             i_amount_usd = 9999, i_status = ''paid'', i_paid_at = Some 20\<rparr>"
  have h: "verifyWebhookSignature ex_hmac ''k'' ?body (received_signature None ?body)"
    "getByPlisioId ?d1 (map_of ?body ''txn_id'') = Some ?iv"
    "\<not> no_faults GetInvoice" "\<not> no_faults UpdateInvoice"
    by code_simp+
  have b: "map_of ?body ''txn_id'' = Some (JStr ''txn1'')" "mapPlisioStatus (map_of ?body ''status'') = ''pending''"
    "map_of ?body ''status'' \<noteq> Some (JStr ''completed'')"
    by code_simp+
  from C4_status_written_unconditionally [OF h, of 30]
  have "getByPlisioId (snd (webhook no_faults ex_hmac ''k'' 30 ?d1 None ?body)) (map_of ?body ''txn_id'')
           = Some (?iv\<lparr>i_status := mapPlisioStatus (map_of ?body ''status''),
                     i_paid_at := (if map_of ?body ''status'' = Some (JStr ''completed'')
                                   then Some 30 else None)\<rparr>)"
    by (rule conjunct1 [OF conjunct2])
  then show ?thesis
    by (simp add: b)
qed

theorem C4_counterexample:
  "map i_status (invoices (snd (webhook no_faults ex_hmac ''k'' 20 ex_db None
       (signed ex_hmac ''k'' (ex_body (JStr ''completed'')))))) = [''paid''] \<and>
   map i_paid_at (invoices (snd (webhook no_faults ex_hmac ''k'' 20 ex_db None
       (signed ex_hmac ''k'' (ex_body (JStr ''completed'')))))) = [Some 20] \<and>
   fst (webhook no_faults ex_hmac ''k'' 30
       (snd (webhook no_faults ex_hmac ''k'' 20 ex_db None (signed ex_hmac ''k'' (ex_body (JStr ''completed'')))))
       None (signed ex_hmac ''k'' (ex_body (JStr ''expired'')))) = Accepted \<and>
   map i_status (invoices (snd (webhook no_faults ex_hmac ''k'' 30
       (snd (webhook no_faults ex_hmac ''k'' 20 ex_db None (signed ex_hmac ''k'' (ex_body (JStr ''completed'')))))
       None (signed ex_hmac ''k'' (ex_body (JStr ''expired'')))))) = [''expired''] \<and>
   map i_paid_at (invoices (snd (webhook no_faults ex_hmac ''k'' 30
       (snd (webhook no_faults ex_hmac ''k'' 20 ex_db None (signed ex_hmac ''k'' (ex_body (JStr ''completed'')))))
       None (signed ex_hmac ''k'' (ex_body (JStr ''expired'')))))) = [None] \<and>
   fst (webhook no_faults ex_hmac ''k'' 40
       (snd (webhook no_faults ex_hmac ''k'' 20 ex_db None (signed ex_hmac ''k'' (ex_body (JStr ''completed'')))))
       None (signed ex_hmac ''k'' (ex_body (JStr ''completed'')))) = ServerError \<and>
   map i_paid_at (invoices (snd (webhook no_faults ex_hmac ''k'' 40
       (snd (webhook no_faults ex_hmac ''k'' 20 ex_db None (signed ex_hmac ''k'' (ex_body (JStr ''completed'')))))
       None (signed ex_hmac ''k'' (ex_body (JStr ''completed'')))))) = [Some 40]"
  by code_simp

text \<open>
  C2. The webhook route runs in no transaction: each statement stays as soon as it
  has run, and nothing is rolled back. For a payload whose signature verifies, whose
  status is \<^verbatim>\<open>completed\<close> and whose invoice is known: when the lookup or the update of
  the invoice fails, the answer is 500 and nothing has changed; when the update of the
  order fails, the answer is 500, the invoice is \<^verbatim>\<open>paid\<close> and the orders are as they
  were; when the read of the order that follows fails, the answer is 500 and both
  updates stay. The answer is 200 only with both updates applied.
\<close>

theorem C2_no_rollback:
  assumes "verifyWebhookSignature hmac secretKey body (received_signature header body)"
    and "map_of body ''status'' = Some (JStr ''completed'')"
    and "getByPlisioId d (map_of body ''txn_id'') = Some iv"
  shows "(fails GetInvoice \<or> fails UpdateInvoice \<longrightarrow>
            webhook fails hmac secretKey now d header body = (ServerError, d)) \<and>
         (\<not> fails GetInvoice \<and> \<not> fails UpdateInvoice \<and> fails UpdateOrder \<longrightarrow>
            webhook fails hmac secretKey now d header body =
              (ServerError, invoiceQueries_updateStatus d (map_of body ''txn_id'') ''paid'' (Some now)) \<and>
            orders (snd (webhook fails hmac secretKey now d header body)) = orders d) \<and>
         (\<not> fails GetInvoice \<and> \<not> fails UpdateInvoice \<and> \<not> fails UpdateOrder \<and> fails GetOrder \<longrightarrow>
            webhook fails hmac secretKey now d header body =
              (ServerError,
               orderQueries_updateStatus now
                 (invoiceQueries_updateStatus d (map_of body ''txn_id'') ''paid'' (Some now))
                 (i_order_id iv) ''paid'')) \<and>
         (fst (webhook fails hmac secretKey now d header body) = Accepted \<longrightarrow>
            snd (webhook fails hmac secretKey now d header body) =
              orderQueries_updateStatus now
                (invoiceQueries_updateStatus d (map_of body ''txn_id'') ''paid'' (Some now))
                (i_order_id iv) ''paid'')"
  using assms
  by (simp add: webhook_eq fulfil_eq invoiceQueries_updateStatus_def)

theorem C2_witness:
  "fst (webhook (\<lambda>s. s = GetOrder) ex_hmac ''k'' 20 ex_db None
          (signed ex_hmac ''k'' (ex_body (JStr ''completed'')))) = ServerError \<and>
   map i_status (invoices (snd (webhook (\<lambda>s. s = GetOrder) ex_hmac ''k'' 20 ex_db None
          (signed ex_hmac ''k'' (ex_body (JStr ''completed'')))))) = [''paid''] \<and>
   map o_status (orders (snd (webhook (\<lambda>s. s = GetOrder) ex_hmac ''k'' 20 ex_db None
          (signed ex_hmac ''k'' (ex_body (JStr ''completed'')))))) = [''paid'']"
proof -
  let ?body = "signed ex_hmac ''k'' (ex_body (JStr ''completed''))"
  let ?iv = "\<lparr>i_order_id = 1, i_plisio_invoice_id = ''txn1'', i_currency = ''BTC'',
                   i_amount_usd = 9999, i_status = ''new'', i_paid_at = None\<rparr>"
  let ?f = "\<lambda>s. s = GetOrder"
  have h: "verifyWebhookSignature ex_hmac ''k'' ?body (received_signature None ?body)"
    "map_of ?body ''status'' = Some (JStr ''completed'')"
    "getByPlisioId ex_db (map_of ?body ''txn_id'') = Some ?iv"
    by code_simp+
  have f: "\<not> ?f GetInvoice \<and> \<not> ?f UpdateInvoice \<and> \<not> ?f UpdateOrder \<and> ?f GetOrder"
    by simp
  from C2_no_rollback [OF h, of ?f 20] f
  have eq: "webhook ?f ex_hmac ''k'' 20 ex_db None ?body =
              (ServerError,
               orderQueries_updateStatus 20
                 (invoiceQueries_updateStatus ex_db (map_of ?body ''txn_id'') ''paid'' (Some 20))
                 (i_order_id ?iv) ''paid'')"
    by blast
  show ?thesis
    unfolding eq by code_simp
qed

theorem C2_counterexample:
  "fst (webhook (\<lambda>s. s = UpdateOrder) ex_hmac ''k'' 20 ex_db None
          (signed ex_hmac ''k'' (ex_body (JStr ''completed'')))) = ServerError \<and>
   map i_status (invoices (snd (webhook (\<lambda>s. s = UpdateOrder) ex_hmac ''k'' 20 ex_db None
          (signed ex_hmac ''k'' (ex_body (JStr ''completed'')))))) = [''paid''] \<and>
   map o_status (orders (snd (webhook (\<lambda>s. s = UpdateOrder) ex_hmac ''k'' 20 ex_db None
          (signed ex_hmac ''k'' (ex_body (JStr ''completed'')))))) = [''pending''] \<and>
   fst (webhook no_faults ex_hmac ''k'' 20 ex_db None
          (signed ex_hmac ''k'' (ex_body (JStr ''completed'')))) = ServerError \<and>
   map o_status (orders (snd (webhook no_faults ex_hmac ''k'' 20 ex_db None
          (signed ex_hmac ''k'' (ex_body (JStr ''completed'')))))) = [''paid''] \<and>
   purchased_products (snd (webhook no_faults ex_hmac ''k'' 20 ex_db None
          (signed ex_hmac ''k'' (ex_body (JStr ''completed''))))) = [] \<and>
   fst (webhook no_faults ex_hmac ''k'' 30
          (snd (webhook no_faults ex_hmac ''k'' 20 ex_db None
                 (signed ex_hmac ''k'' (ex_body (JStr ''completed'')))))
          None (signed ex_hmac ''k'' (ex_body (JStr ''pending'')))) = Accepted \<and>
   map o_status (orders (snd (webhook no_faults ex_hmac ''k'' 30
          (snd (webhook no_faults ex_hmac ''k'' 20 ex_db None
                 (signed ex_hmac ''k'' (ex_body (JStr ''completed'')))))
          None (signed ex_hmac ''k'' (ex_body (JStr ''pending'')))))) = [''paid''] \<and>
   map oi_order_id (order_items (snd (webhook no_faults ex_hmac ''k'' 30
          (snd (webhook no_faults ex_hmac ''k'' 20 ex_db None
                 (signed ex_hmac ''k'' (ex_body (JStr ''completed'')))))
          None (signed ex_hmac ''k'' (ex_body (JStr ''pending'')))))) = [1] \<and>
   purchased_products (snd (webhook no_faults ex_hmac ''k'' 30
          (snd (webhook no_faults ex_hmac ''k'' 20 ex_db None
                 (signed ex_hmac ''k'' (ex_body (JStr ''completed'')))))
          None (signed ex_hmac ''k'' (ex_body (JStr ''pending''))))) = []"
  by code_simp

lemma webhook_completed:
  assumes "verifyWebhookSignature hmac secretKey body (received_signature header body)"
    and "map_of body ''status'' = Some (JStr ''completed'')"
    and "getByPlisioId d (map_of body ''txn_id'') = Some iv"
    and "\<not> fails GetInvoice" "\<not> fails UpdateInvoice" "\<not> fails UpdateOrder" "\<not> fails GetOrder"
  shows "snd (webhook fails hmac secretKey now d header body)
           = paid_state now d (map_of body ''txn_id'') (i_order_id iv)"
  using assms by (simp add: webhook_eq fulfil_eq paid_state_def)

lemma paid_state_twice:
  "paid_state t2 (paid_state t1 d k oid) k oid = paid_state t2 d k oid"
  by (simp add: paid_state_def orderQueries_updateStatus_def invoiceQueries_updateStatus_def comp_def
        if_distrib cong: if_cong)

lemma paid_state_found:
  "getByPlisioId d k = Some iv \<Longrightarrow>
   getByPlisioId (paid_state now d k oid) k = Some (iv\<lparr>i_status := ''paid'', i_paid_at := Some now\<rparr>)"
  by (simp add: paid_state_def getByPlisioId_order_update getByPlisioId_updated)

lemma replay_completed:
  assumes "verifyWebhookSignature hmac secretKey body (received_signature header body)"
    and "map_of body ''status'' = Some (JStr ''completed'')"
    and "\<not> fails GetInvoice" "\<not> fails UpdateInvoice" "\<not> fails UpdateOrder" "\<not> fails GetOrder"
  shows "getByPlisioId d (map_of body ''txn_id'') = Some iv \<Longrightarrow>
         replay fails hmac secretKey d header body (t # ts)
           = paid_state (last (t # ts)) d (map_of body ''txn_id'') (i_order_id iv)"
proof (induction ts arbitrary: d iv t)
  case Nil
  with assms show ?case
    by (simp add: webhook_completed)
next
  case (Cons t' ts)
  let ?k = "map_of body ''txn_id''"
  let ?d1 = "paid_state t d ?k (i_order_id iv)"
  have step: "snd (webhook fails hmac secretKey t d header body) = ?d1"
    using assms Cons.prems by (simp add: webhook_completed)
  have found: "getByPlisioId ?d1 ?k = Some (iv\<lparr>i_status := ''paid'', i_paid_at := Some t\<rparr>)"
    using Cons.prems by (rule paid_state_found)
  from Cons.IH [OF found, of t']
  have "replay fails hmac secretKey ?d1 header body (t' # ts)
          = paid_state (last (t' # ts)) ?d1 ?k (i_order_id iv)"
    by simp
  then show ?case
    using step by (simp add: paid_state_twice)
qed

lemma paid_state_tables:
  "users (paid_state now d k oid) = users d"
  "products (paid_state now d k oid) = products d"
  "order_items (paid_state now d k oid) = order_items d"
  "orders (paid_state now d k oid)
     = map (\<lambda>ord. if o_id ord = oid then ord\<lparr>o_status := ''paid'', o_updated_at := now\<rparr> else ord)
         (orders d)"
  "invoices (paid_state now d k oid)
     = map (\<lambda>iv. if pg_param k = Some (i_plisio_invoice_id iv)
                  then iv\<lparr>i_status := ''paid'', i_paid_at := Some now\<rparr> else iv) (invoices d)"
  by (simp_all add: paid_state_def orderQueries_updateStatus_def invoiceQueries_updateStatus_def)

lemma untimed_paid_state:
  "untimed (paid_state t2 d k oid) = untimed (paid_state t1 d k oid)"
  by (simp add: untimed_def paid_state_tables comp_def if_distrib cong: if_cong)

text \<open>
  C1. The same payload, with a signature that verifies, the status \<^verbatim>\<open>completed\<close> and a
  known invoice, delivered once or more with no query failing: after the deliveries
  the users, products, orders, order items and invoices are what a single delivery at
  the time of the last one gives. The invoice has the status \<^verbatim>\<open>paid\<close>, every order row
  with the id of its order has the status \<^verbatim>\<open>paid\<close>, and a delivery after the first
  changes nothing in these tables but \<^verbatim>\<open>paid_at\<close> of the invoice and \<^verbatim>\<open>updated_at\<close> of
  the order.
\<close>

theorem C1_redelivery_restamps_only:
  assumes "verifyWebhookSignature hmac secretKey body (received_signature header body)"
    and "map_of body ''status'' = Some (JStr ''completed'')"
    and "getByPlisioId d (map_of body ''txn_id'') = Some iv"
    and "\<not> fails GetInvoice" "\<not> fails UpdateInvoice" "\<not> fails UpdateOrder" "\<not> fails GetOrder"
  shows "ledger (replay fails hmac secretKey d header body (t # ts))
           = ledger (snd (webhook fails hmac secretKey (last (t # ts)) d header body)) \<and>
         untimed (replay fails hmac secretKey d header body (t # ts))
           = untimed (replay fails hmac secretKey d header body [t]) \<and>
         getByPlisioId (replay fails hmac secretKey d header body (t # ts)) (map_of body ''txn_id'')
           = Some (iv\<lparr>i_status := ''paid'', i_paid_at := Some (last (t # ts))\<rparr>) \<and>
         list_all (\<lambda>ord. o_id ord \<noteq> i_order_id iv \<or> o_status ord = ''paid'')
           (orders (replay fails hmac secretKey d header body (t # ts)))"
proof -
  let ?k = "map_of body ''txn_id''"
  have many: "replay fails hmac secretKey d header body (t # ts)
                = paid_state (last (t # ts)) d ?k (i_order_id iv)"
    using assms(1,2,4-7) assms(3) by (rule replay_completed)
  have one: "replay fails hmac secretKey d header body [t] = paid_state t d ?k (i_order_id iv)"
    using replay_completed [OF assms(1,2,4-7) assms(3), of t "[]"] by simp
  have single: "snd (webhook fails hmac secretKey (last (t # ts)) d header body)
                  = paid_state (last (t # ts)) d ?k (i_order_id iv)"
    using assms by (rule webhook_completed)
  have "list_all (\<lambda>ord. o_id ord \<noteq> i_order_id iv \<or> o_status ord = ''paid'')
           (orders (paid_state T d ?k (i_order_id iv)))" for T
    unfolding paid_state_tables list_all_iff by auto
  then show ?thesis
    unfolding many one single
    using paid_state_found [OF assms(3)] untimed_paid_state by simp
qed


theorem C1_witness:
  "getByPlisioId (replay no_faults ex_hmac ''k'' ex_db None
       (signed ex_hmac ''k'' (ex_body (JStr ''completed''))) [20, 30, 40]) (Some (JStr ''txn1''))
     = Some \<lparr>i_order_id = 1, i_plisio_invoice_id = ''txn1'', i_currency = ''BTC'',
             i_amount_usd = 9999, i_status = ''paid'', i_paid_at = Some 40\<rparr> \<and>
   untimed (replay no_faults ex_hmac ''k'' ex_db None
       (signed ex_hmac ''k'' (ex_body (JStr ''completed''))) [20, 30, 40])
     = untimed (replay no_faults ex_hmac ''k'' ex_db None
       (signed ex_hmac ''k'' (ex_body (JStr ''completed''))) [20])"
proof -
  let ?body = "signed ex_hmac ''k'' (ex_body (JStr ''completed''))"
  let ?iv = "\<lparr>i_order_id = 1, i_plisio_invoice_id = ''txn1'', i_currency = ''BTC'',
                   i_amount_usd = 9999, i_status = ''new'', i_paid_at = None\<rparr>"
  have h: "verifyWebhookSignature ex_hmac ''k'' ?body (received_signature None ?body)"
    "map_of ?body ''status'' = Some (JStr ''completed'')"
    "getByPlisioId ex_db (map_of ?body ''txn_id'') = Some ?iv"
    "\<not> no_faults GetInvoice" "\<not> no_faults UpdateInvoice" "\<not> no_faults UpdateOrder"
    "\<not> no_faults GetOrder"
    by code_simp+
  have k: "map_of ?body ''txn_id'' = Some (JStr ''txn1'')"
    by code_simp
  from C1_redelivery_restamps_only [OF h, of 20 "[30, 40]"] show ?thesis
    by (simp add: k)
qed

theorem C1_counterexample:
  "fst (webhook no_faults ex_hmac ''k'' 20 ex_db None
          (signed ex_hmac ''k'' (ex_body (JStr ''completed'')))) = ServerError \<and>
   map oi_order_id (order_items (replay no_faults ex_hmac ''k'' ex_db None
       (signed ex_hmac ''k'' (ex_body (JStr ''completed''))) [20])) = [1] \<and>
   purchased_products (replay no_faults ex_hmac ''k'' ex_db None
       (signed ex_hmac ''k'' (ex_body (JStr ''completed''))) [20]) = [] \<and>
   tg_sent (replay no_faults ex_hmac ''k'' ex_db None
       (signed ex_hmac ''k'' (ex_body (JStr ''completed''))) [20]) = [] \<and>
   map i_paid_at (invoices (replay no_faults ex_hmac ''k'' ex_db None
       (signed ex_hmac ''k'' (ex_body (JStr ''completed''))) [20])) = [Some 20] \<and>
   map i_paid_at (invoices (replay no_faults ex_hmac ''k'' ex_db None
       (signed ex_hmac ''k'' (ex_body (JStr ''completed''))) [20, 30])) = [Some 30] \<and>
   map o_updated_at (orders (replay no_faults ex_hmac ''k'' ex_db None
       (signed ex_hmac ''k'' (ex_body (JStr ''completed''))) [20])) = [20] \<and>
   map o_updated_at (orders (replay no_faults ex_hmac ''k'' ex_db None
       (signed ex_hmac ''k'' (ex_body (JStr ''completed''))) [20, 30])) = [30]"
  by code_simp

section \<open>The signature\<close>

lemma new_PlisioService_key:
  "new_PlisioService env_key = Inr secretKey \<Longrightarrow> secretKey \<noteq> []"
  by (auto simp: new_PlisioService_def split: option.splits if_splits)

lemma join_with_Cons:
  "xs \<noteq> [] \<Longrightarrow> join_with sep (x # xs) = x @ sep @ join_with sep xs"
  by (cases xs) simp_all

lemma join_with_differs:
  assumes "distinct ks" "k0 \<in> set ks" "\<And>k. k \<in> set ks \<Longrightarrow> k \<noteq> k0 \<Longrightarrow> g' k = g k"
    "g' k0 \<noteq> g k0"
  shows "join_with sep (map g' ks) \<noteq> join_with sep (map g ks)"
  using assms(1-3)
proof (induction ks)
  case Nil
  then show ?case by simp
next
  case (Cons k ks)
  show ?case
  proof (cases "k = k0")
    case True
    with Cons.prems have "k0 \<notin> set ks"
      by simp
    with Cons.prems(3) have same: "map g' ks = map g ks"
      by (intro map_cong) auto
    show ?thesis
    proof (cases "ks = []")
      case True
      with \<open>k = k0\<close> assms(4) show ?thesis by simp
    next
      case False
      then have "join_with sep (map g' (k # ks)) = g' k0 @ (sep @ join_with sep (map g ks))"
        "join_with sep (map g (k # ks)) = g k0 @ (sep @ join_with sep (map g ks))"
        using \<open>k = k0\<close> by (simp_all add: join_with_Cons same [symmetric])
      with assms(4) show ?thesis
        by simp
    qed
  next
    case False
    with Cons.prems have in_tl: "k0 \<in> set ks" and ne: "ks \<noteq> []"
      by auto
    from Cons.prems have "distinct ks" "\<And>x. x \<in> set ks \<Longrightarrow> x \<noteq> k0 \<Longrightarrow> g' x = g x"
      by auto
    from Cons.IH [OF this(1) in_tl this(2)]
    have "join_with sep (map g' ks) \<noteq> join_with sep (map g ks)"
      by simp
    moreover have "g' k = g k"
      using Cons.prems(3) False by simp
    ultimately show ?thesis
      using ne by (simp add: join_with_Cons)
  qed
qed

lemma sortedParams_differs:
  assumes keys: "map fst data' = map fst data"
    and other: "\<And>k. k \<noteq> k0 \<Longrightarrow> map_of data' k = map_of data k"
    and field: "k0 \<in> set (map fst data)" "k0 \<noteq> ''verify_hash''"
    and changed: "template (map_of data' k0) \<noteq> template (map_of data k0)"
  shows "sortedParams data' \<noteq> sortedParams data"
proof -
  let ?ks = "sort (filter (\<lambda>key. key \<noteq> ''verify_hash'') (object_keys data))"
  have ks': "sort (filter (\<lambda>key. key \<noteq> ''verify_hash'') (object_keys data')) = ?ks"
    using keys by (simp add: object_keys_def)
  have d: "distinct ?ks"
    by (simp add: object_keys_def)
  have m: "k0 \<in> set ?ks"
    using field by (simp add: object_keys_def)
  have "join_with ''&'' (map (\<lambda>key. key @ ''='' @ template (map_of data' key)) ?ks)
        \<noteq> join_with ''&'' (map (\<lambda>key. key @ ''='' @ template (map_of data key)) ?ks)"
    using d m
  proof (rule join_with_differs)
    fix k assume "k \<in> set ?ks" "k \<noteq> k0"
    then show "k @ ''='' @ template (map_of data' k) = k @ ''='' @ template (map_of data k)"
      using other by simp
  next
    show "k0 @ ''='' @ template (map_of data' k0) \<noteq> k0 @ ''='' @ template (map_of data k0)"
      using changed by simp
  qed
  then show ?thesis
    by (simp add: sortedParams_def ks')
qed


text \<open>
  C5. A payload whose signature does not match is answered 401 and changes nothing.
  Take a payload that verifies and alter one field other than \<^verbatim>\<open>verify_hash\<close>, leaving
  the keys and every other field as they were, so that the text of the field in a
  template literal changes: the signature that the route reads is the same, the
  signing string (the fields but \<^verbatim>\<open>verify_hash\<close>, sorted by key, joined as
  \<^verbatim>\<open>key=value\<close> with \<^verbatim>\<open>&\<close>) is another, and when the digest of the new signing string
  is not the digest of the old, the altered payload is answered 401 with the database
  as it was.
\<close>

theorem C5_altered_field_rejected:
  assumes "secretKey \<noteq> []"
    and "map fst data' = map fst data"
    and "\<forall>k. k \<noteq> k0 \<longrightarrow> map_of data' k = map_of data k"
    and "k0 \<in> set (map fst data)" and "k0 \<noteq> ''verify_hash''"
    and "template (map_of data' k0) \<noteq> template (map_of data k0)"
    and "verifyWebhookSignature hmac secretKey data (received_signature header data)"
  shows "(\<not> verifyWebhookSignature hmac secretKey body (received_signature header body) \<longrightarrow>
            webhook fails hmac secretKey now d header body = (Unauthorized, d)) \<and>
         received_signature header data' = received_signature header data \<and>
         sortedParams data' \<noteq> sortedParams data \<and>
         (hmac secretKey (sortedParams data') \<noteq> hmac secretKey (sortedParams data) \<longrightarrow>
            webhook fails hmac secretKey now d header data' = (Unauthorized, d))"
proof (intro conjI impI)
  assume "\<not> verifyWebhookSignature hmac secretKey body (received_signature header body)"
  then show "webhook fails hmac secretKey now d header body = (Unauthorized, d)"
    by (simp add: webhook_def)
next
  from assms(3,5) have "map_of data' ''verify_hash'' = map_of data ''verify_hash''"
    by (metis (no_types))
  then show sig: "received_signature header data' = received_signature header data"
    by (simp add: received_signature_def split: option.splits)
  show "sortedParams data' \<noteq> sortedParams data"
    using assms(2-6) by (intro sortedParams_differs [of data' data k0]) simp_all
  assume "hmac secretKey (sortedParams data') \<noteq> hmac secretKey (sortedParams data)"
  with assms(1,7) sig
  have "\<not> verifyWebhookSignature hmac secretKey data' (received_signature header data')"
    unfolding verifyWebhookSignature_def
    by (metis jsval.inject(1) option.inject)
  then show "webhook fails hmac secretKey now d header data' = (Unauthorized, d)"
    by (simp add: webhook_def)
qed

theorem C5_witness:
  "webhook no_faults ex_hmac ''k'' 20 ex_db None
     ([(''txn_id'', JStr ''txn1''), (''status'', JStr ''completed''), (''amount'', JStr ''9.5'')]
      @ [(''verify_hash'', JStr (ex_hmac ''k'' (sortedParams (ex_body (JStr ''completed'')))))])
   = (Unauthorized, ex_db)"
proof -
  let ?data = "signed ex_hmac ''k'' (ex_body (JStr ''completed''))"
  let ?data' = "[(''txn_id'', JStr ''txn1''), (''status'', JStr ''completed''), (''amount'', JStr ''9.5'')]
      @ [(''verify_hash'', JStr (ex_hmac ''k'' (sortedParams (ex_body (JStr ''completed'')))))]"
  have h: "''k'' \<noteq> []" "map fst ?data' = map fst ?data"
    "\<forall>k. k \<noteq> ''amount'' \<longrightarrow> map_of ?data' k = map_of ?data k"
    "''amount'' \<in> set (map fst ?data)" "''amount'' \<noteq> ''verify_hash''"
    "template (map_of ?data' ''amount'') \<noteq> template (map_of ?data ''amount'')"
    by (simp_all add: signed_def ex_body_def template_def)
  have v: "verifyWebhookSignature ex_hmac ''k'' ?data (received_signature None ?data)"
    by code_simp
  note t = C5_altered_field_rejected [OF h v, of "[]" no_faults 20 ex_db]
  from t have "sortedParams ?data' \<noteq> sortedParams ?data"
    by blast
  then have "ex_hmac ''k'' (sortedParams ?data') \<noteq> ex_hmac ''k'' (sortedParams ?data)"
    by (simp add: ex_hmac_def)
  with t show ?thesis
    by blast
qed

theorem C5_counterexample:
  "verifyWebhookSignature ex_hmac ''k'' (signed ex_hmac ''k'' (ex_body (JStr ''completed'')))
     (received_signature None (signed ex_hmac ''k'' (ex_body (JStr ''completed'')))) \<and>
   sortedParams (ex_body (JArr [JStr ''completed''])) = sortedParams (ex_body (JStr ''completed'')) \<and>
   fst (webhook no_faults ex_hmac ''k'' 20 ex_db None
     (ex_body (JArr [JStr ''completed''])
      @ [(''verify_hash'', JStr (ex_hmac ''k'' (sortedParams (ex_body (JStr ''completed'')))))]))
     = Accepted \<and>
   map i_status (invoices ex_db) = [''new''] \<and>
   map i_status (invoices (snd (webhook no_faults ex_hmac ''k'' 20 ex_db None
     (ex_body (JArr [JStr ''completed''])
      @ [(''verify_hash'', JStr (ex_hmac ''k'' (sortedParams (ex_body (JStr ''completed'')))))]))))
     = [''paid''] \<and>
   map o_status (orders (snd (webhook no_faults ex_hmac ''k'' 20 ex_db None
     (ex_body (JArr [JStr ''completed''])
      @ [(''verify_hash'', JStr (ex_hmac ''k'' (sortedParams (ex_body (JStr ''completed'')))))]))))
     = [''pending'']"
  by code_simp

section \<open>The foreign keys are kept\<close>

lemma referential_createOrder:
  assumes "referential d" "createOrder fails gateway now d req = (r, d', log)"
  shows "referential d'"
  using assms(2)
proof (cases rule: createOrder_cases)
  case rejected
  with assms(1) show ?thesis
    by (auto simp: referential_def)
next
  case (no_invoice u its t ois)
  from no_invoice(1) have "u \<in> set (users d)"
    by (auto simp: findByTelegramId_def find_Some_iff)
  with assms(1) no_invoice(4) show ?thesis
    by (auto simp: referential_iff with_order_def new_order_def)
next
  case (invoiced u its t ois plisioInvoice x)
  from invoiced(1) have u: "u \<in> set (users d)"
    by (auto simp: findByTelegramId_def find_Some_iff)
  let ?w = "(with_order now d (u_id u) ois t)
      \<lparr>invoices := invoices d @ [invoice_row (new_order now d (u_id u) t) t plisioInvoice]\<rparr>"
  have "referential ?w"
    using assms(1) u
    by (auto simp: referential_iff with_order_def new_order_def invoice_row_def)
  moreover from update_stocks_frame [OF invoiced(5)]
  have "users d' = users ?w" "orders d' = orders ?w" "invoices d' = invoices ?w"
    by simp_all
  ultimately show ?thesis
    by (simp add: referential_iff)
qed

end
